theory Spec2Isabelle
  imports
    Main
    "HOL-Library.Word"
    "HOL-Library.Signed_Division"
    "HOL-Library.Char_ord"
    "HOL-Library.List_Lexorder"
    "HOL-Library.AList"
begin

section \<open>The value model\<close>

text \<open>
  The virtual machine of \<^verbatim>\<open>vm/vm.go\<close> works on values of the interface
  \<^verbatim>\<open>object.Object\<close>, every one of which is a pointer. Three of these pointers are
  package-level variables of \<^verbatim>\<open>vm\<close> (\<^verbatim>\<open>True\<close>, \<^verbatim>\<open>False\<close>, \<^verbatim>\<open>Null\<close>); all the others come
  from a composite literal \<^verbatim>\<open>&object.T{...}\<close>, that is, a fresh allocation. The only
  pointer comparisons of the sources are against the three globals, so an interface value
  is modelled as either one of the globals or a fresh object with its contents.

  \<^item> \<open>vm_True\<close>, \<open>vm_False\<close>, \<open>vm_Null\<close>: the globals \<^verbatim>\<open>vm.True\<close>, \<^verbatim>\<open>vm.False\<close>, \<^verbatim>\<open>vm.Null\<close>;
  \<^item> \<open>Integer\<close>, \<open>Float\<close>, \<open>String\<close>, \<open>Boolean\<close>, \<open>Null\<close>, \<open>Array\<close>: a value allocated by
    \<^verbatim>\<open>&object.Integer{Value: v}\<close> and so on.

  Two fresh objects are never compared with each other, and a fresh object is kept apart
  from the globals. (For \<^verbatim>\<open>&object.Null{}\<close>, a pointer to a value of size zero, Go leaves
  open whether it equals the global \<^verbatim>\<open>Null\<close>; no statement below is about that comparison.)

  \<^verbatim>\<open>int64\<close> is \<open>64 word\<close>. \<^verbatim>\<open>float64\<close> is the type parameter \<open>'f\<close>: its arithmetic is
  the hardware's, and comes in through the record \<open>deps\<close> below. A Go string is its byte
  sequence, a \<open>string\<close> of HOL (whose characters are bytes).
\<close>

datatype 'f Object =
    vm_True
  | vm_False
  | vm_Null
  | Integer "64 word"
  | Float 'f
  | String string
  | Boolean bool
  | Null
  | Array "'f Object list"

datatype Type = INTEGER | FLOAT | STRING | BOOLEAN | NULL | ARRAY

datatype Opcode =
    OpNop | OpPush | OpConstant | OpLookup | OpSet
  | OpAdd | OpSub | OpMul | OpDiv | OpMod | OpPower
  | OpLess | OpLessEqual | OpGreater | OpGreaterEqual | OpEqual | OpNotEqual
  | OpMatches | OpNotMatches | OpAnd | OpOr
  | OpArray | OpArrayIndex | OpBang | OpMinus | OpRoot | OpTrue | OpFalse
  | OpReturn | OpJump | OpJumpIfFalse | OpCall
  | OpCodeSingleArg | OpFinal
  | OpUnknown

text \<open>
  Every way a call into the machine can fail. The first group are the \<^verbatim>\<open>fmt.Errorf\<close>
  values of \<^verbatim>\<open>vm.go\<close> (the message text is left out, the kind is kept); \<open>StackUnderflow\<close>
  is the error of \<^verbatim>\<open>stack.Pop\<close>; \<open>Panic\<close> is a run-time panic of Go (an index out of
  range, a failed type assertion, an integer division by zero) and \<open>Exit\<close> the
  \<^verbatim>\<open>os.Exit(1)\<close> of \<^verbatim>\<open>createArrayFromSlice\<close>.
\<close>

datatype error =
    EmptyProgram
  | MissingReturn
  | FakeInstruction
  | UnhandledOpcode
  | UnknownFunction string
  | TypeMismatch
  | UnknownOperator
  | DivisionByZero
  | MatchLookupFailed
  | IndexNotIndexable
  | IndexNotInteger
  | NegationType
  | SquareRootType
  | StackUnderflow
  | Panic
  | Exit

text \<open>
  What the sources use and do not contain: the arithmetic of \<^verbatim>\<open>float64\<close>, functions of
  Go's standard library (\<^verbatim>\<open>math\<close>, \<^verbatim>\<open>strconv\<close>, \<^verbatim>\<open>strings\<close>, \<^verbatim>\<open>unicode/utf8\<close>, \<^verbatim>\<open>regexp\<close>),
  and constants of the packages \<^verbatim>\<open>object\<close> and \<^verbatim>\<open>code\<close>. They are parameters of the
  model. \<open>'r\<close> is the type of a compiled regular expression.

  \<^item> \<open>fadd\<close> ... \<open>feq\<close>: \<^verbatim>\<open>+ - * /\<close>, \<^verbatim>\<open>math.Pow\<close>, \<^verbatim>\<open>math.Sqrt\<close>, unary minus, \<^verbatim>\<open>< <= ==\<close> on
    \<^verbatim>\<open>float64\<close> (\<^verbatim>\<open>a > b\<close> is \<^verbatim>\<open>b < a\<close>, \<^verbatim>\<open>a >= b\<close> is \<^verbatim>\<open>b <= a\<close>, \<^verbatim>\<open>a != b\<close> is \<^verbatim>\<open>!(a == b)\<close>);
  \<^item> \<open>float64_of\<close>: the conversion \<^verbatim>\<open>float64(i)\<close> of an \<^verbatim>\<open>int64\<close>, also of the constant 0;
  \<^item> \<open>int_of\<close>: the conversion \<^verbatim>\<open>int(f)\<close> and \<^verbatim>\<open>int64(f)\<close> of a \<^verbatim>\<open>float64\<close>;
  \<^item> \<open>FormatFloat\<close>, \<open>null_text\<close>: the \<^verbatim>\<open>Inspect\<close> forms of a Float and of a Null;
  \<^item> \<open>type_text\<close>: the text of a type tag of package \<^verbatim>\<open>object\<close>;
  \<^item> \<open>Opcode_of\<close>: which opcode constant of package \<^verbatim>\<open>code\<close> a byte is
    (\<open>OpUnknown\<close> when none).
\<close>

record ('f, 'r) deps =
  fadd :: "'f \<Rightarrow> 'f \<Rightarrow> 'f"
  fsub :: "'f \<Rightarrow> 'f \<Rightarrow> 'f"
  fmul :: "'f \<Rightarrow> 'f \<Rightarrow> 'f"
  fdiv :: "'f \<Rightarrow> 'f \<Rightarrow> 'f"
  Pow :: "'f \<Rightarrow> 'f \<Rightarrow> 'f"
  Sqrt :: "'f \<Rightarrow> 'f"
  fneg :: "'f \<Rightarrow> 'f"
  flt :: "'f \<Rightarrow> 'f \<Rightarrow> bool"
  fle :: "'f \<Rightarrow> 'f \<Rightarrow> bool"
  feq :: "'f \<Rightarrow> 'f \<Rightarrow> bool"
  float64_of :: "64 word \<Rightarrow> 'f"
  int_of :: "'f \<Rightarrow> 64 word"
  FormatFloat :: "'f \<Rightarrow> string"
  ParseFloat :: "string \<Rightarrow> 'f option"
  ParseInt :: "string \<Rightarrow> 64 word option"
  RuneCountInString :: "string \<Rightarrow> nat"
  ToLower :: "string \<Rightarrow> string"
  ToUpper :: "string \<Rightarrow> string"
  TrimSpace :: "string \<Rightarrow> string"
  Compile :: "string \<Rightarrow> 'r option"
  MatchString :: "'r \<Rightarrow> string \<Rightarrow> bool"
  null_text :: string
  type_text :: "Type \<Rightarrow> string"
  Opcode_of :: "8 word \<Rightarrow> Opcode"

subsection \<open>The methods of \<^verbatim>\<open>object.Object\<close>\<close>

fun object_Type :: "'f Object \<Rightarrow> Type" where
  "object_Type vm_True = BOOLEAN"
| "object_Type vm_False = BOOLEAN"
| "object_Type vm_Null = NULL"
| "object_Type (Integer v) = INTEGER"
| "object_Type (Float v) = FLOAT"
| "object_Type (String v) = STRING"
| "object_Type (Boolean v) = BOOLEAN"
| "object_Type Null = NULL"
| "object_Type (Array els) = ARRAY"

text \<open>The decimal form of an integer, as \<^verbatim>\<open>%d\<close> prints it.\<close>

definition digit_char :: "nat \<Rightarrow> char" where
  "digit_char d = ''0123456789'' ! d"

fun digits :: "nat \<Rightarrow> string" where
  "digits n = (if n < 10 then [digit_char n] else digits (n div 10) @ [digit_char (n mod 10)])"

declare digits.simps [simp del]

definition decimal :: "int \<Rightarrow> string" where
  "decimal i = (if i < 0 then CHR ''-'' # digits (nat (- i)) else digits (nat i))"

text \<open>\<^verbatim>\<open>strings.Join\<close>.\<close>

fun Join :: "string list \<Rightarrow> string \<Rightarrow> string" where
  "Join [] sep = []"
| "Join [x] sep = x"
| "Join (x # y # ys) sep = x @ sep @ Join (y # ys) sep"

text \<open>
  \<^verbatim>\<open>Inspect\<close>. The case of an Array is \<^verbatim>\<open>(*Array).Inspect\<close> of the sources.

  Modelled from the spec: \<^verbatim>\<open>Inspect\<close> of the other types is in files of package
  \<^verbatim>\<open>object\<close> that are not part of the sources. By section 3 of the specification it is the
  text form of the value: integer 3 gives "3", boolean true gives "true", a string gives
  its text.
\<close>

fun Inspect :: "('f, 'r) deps \<Rightarrow> 'f Object \<Rightarrow> string" where
  "Inspect D vm_True = ''true''"
| "Inspect D vm_False = ''false''"
| "Inspect D vm_Null = null_text D"
| "Inspect D (Integer v) = decimal (sint v)"
| "Inspect D (Float v) = FormatFloat D v"
| "Inspect D (String v) = v"
| "Inspect D (Boolean v) = (if v then ''true'' else ''false'')"
| "Inspect D Null = null_text D"
| "Inspect D (Array els) = ''['' @ Join (map (Inspect D) els) '', '' @ '']''"

text \<open>
  \<^verbatim>\<open>True\<close>, the truth value of an object. The case of an Array is \<^verbatim>\<open>(*Array).True\<close> of the
  sources.

  Modelled from the spec: \<^verbatim>\<open>True\<close> of the other types is in files of package \<^verbatim>\<open>object\<close>
  that are not part of the sources. By section 4.8 of the specification a Boolean is its
  value; Integer 0, Float 0.0, the empty String and Null are false; everything else is
  true.
\<close>

fun object_True :: "('f, 'r) deps \<Rightarrow> 'f Object \<Rightarrow> bool" where
  "object_True D vm_True = True"
| "object_True D vm_False = False"
| "object_True D vm_Null = False"
| "object_True D (Integer v) = (v \<noteq> 0)"
| "object_True D (Float v) = (\<not> feq D v (float64_of D 0))"
| "object_True D (String v) = (v \<noteq> [])"
| "object_True D (Boolean v) = v"
| "object_True D Null = False"
| "object_True D (Array els) = (length els \<noteq> 0)"

text \<open>The type assertions \<^verbatim>\<open>x.(*object.T).Value\<close>: \<open>None\<close> is the panic of a failed one.\<close>

fun Integer_Value :: "'f Object \<Rightarrow> 64 word option" where
  "Integer_Value (Integer v) = Some v"
| "Integer_Value _ = None"

fun Float_Value :: "'f Object \<Rightarrow> 'f option" where
  "Float_Value (Float v) = Some v"
| "Float_Value _ = None"

fun String_Value :: "'f Object \<Rightarrow> string option" where
  "String_Value (String v) = Some v"
| "String_Value _ = None"

fun Boolean_Value :: "'f Object \<Rightarrow> bool option" where
  "Boolean_Value vm_True = Some True"
| "Boolean_Value vm_False = Some False"
| "Boolean_Value (Boolean v) = Some v"
| "Boolean_Value _ = None"

fun Array_Elements :: "'f Object \<Rightarrow> 'f Object list option" where
  "Array_Elements (Array els) = Some els"
| "Array_Elements _ = None"

section \<open>The state of the machine\<close>

text \<open>
  Modelled from the spec: the packages \<^verbatim>\<open>environment\<close> (apart from its built-in
  functions) and \<^verbatim>\<open>stack\<close> are not part of the sources. By sections 3 and 4.7 of the
  specification an environment is two tables, from a name to the value of the variable and
  from a name to a callable that takes the list of arguments and returns a value; by
  section 4.6 the stack is a LIFO of values whose \<^verbatim>\<open>pop\<close> fails on the empty stack.
\<close>

record 'f Environment =
  variables :: "string \<rightharpoonup> 'f Object"
  callables :: "string \<rightharpoonup> ('f Object list \<Rightarrow> 'f Object)"

text \<open>
  The struct \<^verbatim>\<open>VM\<close>. The head of the list \<open>stack\<close> is the top of the stack. The map
  \<^verbatim>\<open>fields\<close> is the list of its entries, one for each key: \<^verbatim>\<open>fields[name] = ret\<close> is
  \<open>AList.update\<close>, \<^verbatim>\<open>fields[name]\<close> is \<open>map_of\<close>, and the map has length 0 when the list is
  empty.
\<close>

record 'f VM =
  constants :: "'f Object list"
  bytecode :: "8 word list"
  stack :: "'f Object list"
  environment :: "'f Environment"
  vm_fields :: "(string \<times> 'f Object) list"

definition Push :: "'f Object \<Rightarrow> 'f VM \<Rightarrow> 'f VM" where
  "Push v vm = vm\<lparr>stack := v # stack vm\<rparr>"

definition Pop :: "'f VM \<Rightarrow> error + ('f Object \<times> 'f VM)" where
  "Pop vm = (case stack vm of [] \<Rightarrow> Inl StackUnderflow | v # rest \<Rightarrow> Inr (v, vm\<lparr>stack := rest\<rparr>))"

text \<open>
  A method of \<^verbatim>\<open>*VM\<close> that returns an \<^verbatim>\<open>error\<close> yields the error, if any, and the machine
  as the method left it.
\<close>

type_synonym 'f status = "error option \<times> 'f VM"

definition nativeBoolToBooleanObject :: "bool \<Rightarrow> 'f Object" where
  "nativeBoolToBooleanObject input = (if input then vm_True else vm_False)"

section \<open>Binary operators\<close>

text \<open>
  \<^verbatim>\<open>/\<close> and \<^verbatim>\<open>%\<close> of Go on \<^verbatim>\<open>int64\<close> truncate towards zero, and wrap around for the one
  quotient that does not fit. A zero divisor panics: the callers test it.
\<close>

definition int64_quo :: "64 word \<Rightarrow> 64 word \<Rightarrow> 64 word" where
  "int64_quo a b = word_of_int (sint a sdiv sint b)"

definition int64_rem :: "64 word \<Rightarrow> 64 word \<Rightarrow> 64 word" where
  "int64_rem a b = word_of_int (sint a smod sint b)"

definition evalIntegerInfixExpression ::
  "('f, 'r) deps \<Rightarrow> Opcode \<Rightarrow> 'f Object \<Rightarrow> 'f Object \<Rightarrow> 'f VM \<Rightarrow> 'f status" where
  "evalIntegerInfixExpression D op left right vm =
     (case Integer_Value left of None \<Rightarrow> (Some Panic, vm) | Some leftVal \<Rightarrow>
      case Integer_Value right of None \<Rightarrow> (Some Panic, vm) | Some rightVal \<Rightarrow>
      (case op of
         OpAdd \<Rightarrow> (None, Push (Integer (leftVal + rightVal)) vm)
       | OpSub \<Rightarrow> (None, Push (Integer (leftVal - rightVal)) vm)
       | OpMul \<Rightarrow> (None, Push (Integer (leftVal * rightVal)) vm)
       | OpDiv \<Rightarrow>
           if rightVal = 0 then (Some DivisionByZero, vm)
           else (None, Push (Integer (int64_quo leftVal rightVal)) vm)
       | OpMod \<Rightarrow>
           if rightVal = 0 then (Some Panic, vm)
           else (None, Push (Integer (int64_rem leftVal rightVal)) vm)
       | OpPower \<Rightarrow>
           (None, Push (Integer (int_of D (Pow D (float64_of D leftVal) (float64_of D rightVal)))) vm)
       | OpLess \<Rightarrow> (None, Push (nativeBoolToBooleanObject (leftVal <s rightVal)) vm)
       | OpLessEqual \<Rightarrow> (None, Push (nativeBoolToBooleanObject (leftVal \<le>s rightVal)) vm)
       | OpGreater \<Rightarrow> (None, Push (nativeBoolToBooleanObject (rightVal <s leftVal)) vm)
       | OpGreaterEqual \<Rightarrow> (None, Push (nativeBoolToBooleanObject (rightVal \<le>s leftVal)) vm)
       | OpEqual \<Rightarrow> (None, Push (nativeBoolToBooleanObject (leftVal = rightVal)) vm)
       | OpNotEqual \<Rightarrow> (None, Push (nativeBoolToBooleanObject (leftVal \<noteq> rightVal)) vm)
       | _ \<Rightarrow> (Some UnknownOperator, vm)))"

text \<open>
  The three functions on floats (\<^verbatim>\<open>float OP float\<close>, \<^verbatim>\<open>float OP int\<close>, \<^verbatim>\<open>int OP float\<close>)
  have the same \<^verbatim>\<open>switch\<close>, word for word, on \<^verbatim>\<open>leftVal\<close> and \<^verbatim>\<open>rightVal\<close>; they differ in
  how these two are read from the operands. \<open>float_switch\<close> is that \<^verbatim>\<open>switch\<close>. In it
  \<^verbatim>\<open>rightVal == 0\<close> compares with the constant 0 as a \<^verbatim>\<open>float64\<close>, and the remainder
  \<^verbatim>\<open>int(leftVal) % int(rightVal)\<close> panics on a zero divisor.
\<close>

definition float_switch :: "('f, 'r) deps \<Rightarrow> Opcode \<Rightarrow> 'f \<Rightarrow> 'f \<Rightarrow> 'f VM \<Rightarrow> 'f status" where
  "float_switch D op leftVal rightVal vm =
     (case op of
        OpAdd \<Rightarrow> (None, Push (Float (fadd D leftVal rightVal)) vm)
      | OpSub \<Rightarrow> (None, Push (Float (fsub D leftVal rightVal)) vm)
      | OpMul \<Rightarrow> (None, Push (Float (fmul D leftVal rightVal)) vm)
      | OpDiv \<Rightarrow>
          if feq D rightVal (float64_of D 0) then (Some DivisionByZero, vm)
          else (None, Push (Float (fdiv D leftVal rightVal)) vm)
      | OpMod \<Rightarrow>
          if int_of D rightVal = 0 then (Some Panic, vm)
          else (None, Push (Float (float64_of D (int64_rem (int_of D leftVal) (int_of D rightVal)))) vm)
      | OpPower \<Rightarrow> (None, Push (Float (Pow D leftVal rightVal)) vm)
      | OpLess \<Rightarrow> (None, Push (nativeBoolToBooleanObject (flt D leftVal rightVal)) vm)
      | OpLessEqual \<Rightarrow> (None, Push (nativeBoolToBooleanObject (fle D leftVal rightVal)) vm)
      | OpGreater \<Rightarrow> (None, Push (nativeBoolToBooleanObject (flt D rightVal leftVal)) vm)
      | OpGreaterEqual \<Rightarrow> (None, Push (nativeBoolToBooleanObject (fle D rightVal leftVal)) vm)
      | OpEqual \<Rightarrow> (None, Push (nativeBoolToBooleanObject (feq D leftVal rightVal)) vm)
      | OpNotEqual \<Rightarrow> (None, Push (nativeBoolToBooleanObject (\<not> feq D leftVal rightVal)) vm)
      | _ \<Rightarrow> (Some UnknownOperator, vm))"

definition evalFloatInfixExpression ::
  "('f, 'r) deps \<Rightarrow> Opcode \<Rightarrow> 'f Object \<Rightarrow> 'f Object \<Rightarrow> 'f VM \<Rightarrow> 'f status" where
  "evalFloatInfixExpression D op left right vm =
     (case Float_Value left of None \<Rightarrow> (Some Panic, vm) | Some leftVal \<Rightarrow>
      case Float_Value right of None \<Rightarrow> (Some Panic, vm) | Some rightVal \<Rightarrow>
      float_switch D op leftVal rightVal vm)"

definition evalFloatIntegerInfixExpression ::
  "('f, 'r) deps \<Rightarrow> Opcode \<Rightarrow> 'f Object \<Rightarrow> 'f Object \<Rightarrow> 'f VM \<Rightarrow> 'f status" where
  "evalFloatIntegerInfixExpression D op left right vm =
     (case Float_Value left of None \<Rightarrow> (Some Panic, vm) | Some leftVal \<Rightarrow>
      case Integer_Value right of None \<Rightarrow> (Some Panic, vm) | Some r \<Rightarrow>
      float_switch D op leftVal (float64_of D r) vm)"

definition evalIntegerFloatInfixExpression ::
  "('f, 'r) deps \<Rightarrow> Opcode \<Rightarrow> 'f Object \<Rightarrow> 'f Object \<Rightarrow> 'f VM \<Rightarrow> 'f status" where
  "evalIntegerFloatInfixExpression D op left right vm =
     (case Integer_Value left of None \<Rightarrow> (Some Panic, vm) | Some l \<Rightarrow>
      case Float_Value right of None \<Rightarrow> (Some Panic, vm) | Some rightVal \<Rightarrow>
      float_switch D op (float64_of D l) rightVal vm)"

text \<open>
  \<^verbatim>\<open>evalStringInfixExpression\<close>. Go compares strings byte by byte, lexicographically:
  that is the order of \<open>string\<close> here. The two arms for \<^verbatim>\<open>~=\<close> and \<^verbatim>\<open>!~\<close> call the function
  registered as \<^verbatim>\<open>match\<close> with the two operands, and assert that it returned a
  \<^verbatim>\<open>*object.Boolean\<close>.
\<close>

definition evalStringInfixExpression ::
  "Opcode \<Rightarrow> 'f Object \<Rightarrow> 'f Object \<Rightarrow> 'f VM \<Rightarrow> 'f status" where
  "evalStringInfixExpression op left right vm =
     (case String_Value left of None \<Rightarrow> (Some Panic, vm) | Some l \<Rightarrow>
      case String_Value right of None \<Rightarrow> (Some Panic, vm) | Some r \<Rightarrow>
      (case op of
         OpEqual \<Rightarrow> (None, Push (nativeBoolToBooleanObject (l = r)) vm)
       | OpNotEqual \<Rightarrow> (None, Push (nativeBoolToBooleanObject (l \<noteq> r)) vm)
       | OpGreaterEqual \<Rightarrow> (None, Push (nativeBoolToBooleanObject (r \<le> l)) vm)
       | OpGreater \<Rightarrow> (None, Push (nativeBoolToBooleanObject (r < l)) vm)
       | OpLessEqual \<Rightarrow> (None, Push (nativeBoolToBooleanObject (l \<le> r)) vm)
       | OpLess \<Rightarrow> (None, Push (nativeBoolToBooleanObject (l < r)) vm)
       | OpMatches \<Rightarrow>
           (case callables (environment vm) ''match'' of
              None \<Rightarrow> (Some MatchLookupFailed, vm)
            | Some fn \<Rightarrow>
                (case Boolean_Value (fn [left, right]) of
                   None \<Rightarrow> (Some Panic, vm)
                 | Some b \<Rightarrow> if b then (None, Push vm_True vm) else (None, Push vm_False vm)))
       | OpNotMatches \<Rightarrow>
           (case callables (environment vm) ''match'' of
              None \<Rightarrow> (Some MatchLookupFailed, vm)
            | Some fn \<Rightarrow>
                (case Boolean_Value (fn [left, right]) of
                   None \<Rightarrow> (Some Panic, vm)
                 | Some b \<Rightarrow> if b then (None, Push vm_False vm) else (None, Push vm_True vm)))
       | OpAdd \<Rightarrow> (None, Push (String (l @ r)) vm)
       | _ \<Rightarrow> (Some UnknownOperator, vm)))"

definition evalBooleanInfixExpression ::
  "('f, 'r) deps \<Rightarrow> Opcode \<Rightarrow> 'f Object \<Rightarrow> 'f Object \<Rightarrow> 'f VM \<Rightarrow> 'f status" where
  "evalBooleanInfixExpression D op left right vm =
     (let l = String (Inspect D left); r = String (Inspect D right)
      in evalStringInfixExpression op l r vm)"

definition executeBinaryOperation :: "('f, 'r) deps \<Rightarrow> Opcode \<Rightarrow> 'f VM \<Rightarrow> 'f status" where
  "executeBinaryOperation D op vm =
     (case Pop vm of Inl err \<Rightarrow> (Some err, vm) | Inr (right, vm1) \<Rightarrow>
      case Pop vm1 of Inl err \<Rightarrow> (Some err, vm1) | Inr (left, vm2) \<Rightarrow>
      if object_Type left = INTEGER \<and> object_Type right = INTEGER then
        evalIntegerInfixExpression D op left right vm2
      else if object_Type left = FLOAT \<and> object_Type right = FLOAT then
        evalFloatInfixExpression D op left right vm2
      else if object_Type left = FLOAT \<and> object_Type right = INTEGER then
        evalFloatIntegerInfixExpression D op left right vm2
      else if object_Type left = INTEGER \<and> object_Type right = FLOAT then
        evalIntegerFloatInfixExpression D op left right vm2
      else if object_Type left = STRING \<and> object_Type right = STRING then
        evalStringInfixExpression op left right vm2
      else if op = OpAnd then
        (if \<not> object_True D left then (None, Push vm_False vm2)
         else if object_True D right then (None, Push vm_True vm2)
         else (None, Push vm_False vm2))
      else if op = OpOr then
        (if object_True D left then (None, Push vm_True vm2)
         else if object_True D right then (None, Push vm_True vm2)
         else (None, Push vm_False vm2))
      else if object_Type left = BOOLEAN \<and> object_Type right = BOOLEAN then
        evalBooleanInfixExpression D op left right vm2
      else if object_Type left \<noteq> object_Type right then (Some TypeMismatch, vm2)
      else (Some UnknownOperator, vm2))"

section \<open>Prefix operators and indexing\<close>

text \<open>
  \<^verbatim>\<open>executeBangOperator\<close> switches on the operand itself: each \<^verbatim>\<open>case\<close> compares the
  popped interface value with one of the three global pointers.
\<close>

definition executeBangOperator :: "'f VM \<Rightarrow> 'f status" where
  "executeBangOperator vm =
     (case Pop vm of Inl err \<Rightarrow> (Some err, vm) | Inr (operand, vm1) \<Rightarrow>
      if operand = vm_True then (None, Push vm_False vm1)
      else if operand = vm_False then (None, Push vm_True vm1)
      else if operand = vm_Null then (None, Push vm_True vm1)
      else (None, Push vm_False vm1))"

definition executeMinusOperator :: "('f, 'r) deps \<Rightarrow> 'f VM \<Rightarrow> 'f status" where
  "executeMinusOperator D vm =
     (case Pop vm of Inl err \<Rightarrow> (Some err, vm) | Inr (operand, vm1) \<Rightarrow>
      (case operand of
         Integer v \<Rightarrow> (None, Push (Integer (- v)) vm1)
       | Float v \<Rightarrow> (None, Push (Float (fneg D v)) vm1)
       | _ \<Rightarrow> (Some NegationType, vm1)))"

definition executeSquareRoot :: "('f, 'r) deps \<Rightarrow> 'f VM \<Rightarrow> 'f status" where
  "executeSquareRoot D vm =
     (case Pop vm of Inl err \<Rightarrow> (Some err, vm) | Inr (operand, vm1) \<Rightarrow>
      (case operand of
         Integer v \<Rightarrow> (None, Push (Float (Sqrt D (float64_of D v))) vm1)
       | Float v \<Rightarrow> (None, Push (Float (Sqrt D v)) vm1)
       | _ \<Rightarrow> (Some SquareRootType, vm1)))"

text \<open>
  The conversion \<^verbatim>\<open>string(b)\<close> of a byte \<^verbatim>\<open>b\<close>: by the language it is the UTF-8 form of
  the code point \<^verbatim>\<open>b\<close>, one byte below 128 and two bytes from 128 on.
\<close>

definition string_of_byte :: "char \<Rightarrow> string" where
  "string_of_byte b =
     (let n = (of_char b :: nat)
      in if n < 128 then [b] else [char_of (192 + n div 64), char_of (128 + n mod 64)])"

text \<open>
  \<^verbatim>\<open>executeIndexExpression\<close>. \<^verbatim>\<open>str[idx]\<close> and \<^verbatim>\<open>arrayObject.Elements[idx]\<close> panic when
  the index is not below the length. \<^verbatim>\<open>int(idx)\<close> is \<^verbatim>\<open>idx\<close> itself, \<^verbatim>\<open>int\<close> being 64 bits
  wide.
\<close>

definition executeIndexExpression :: "('f, 'r) deps \<Rightarrow> 'f Object \<Rightarrow> 'f Object \<Rightarrow> 'f VM \<Rightarrow> 'f status" where
  "executeIndexExpression D left index vm =
     (if object_Type left \<noteq> ARRAY \<and> object_Type left \<noteq> STRING then (Some IndexNotIndexable, vm)
      else if object_Type index \<noteq> INTEGER then (Some IndexNotInteger, vm)
      else case Integer_Value index of None \<Rightarrow> (Some Panic, vm) | Some idx \<Rightarrow>
        if object_Type left = STRING then
          (case String_Value left of None \<Rightarrow> (Some Panic, vm) | Some _ \<Rightarrow>
           let str = Inspect D left in
           if sint idx < 0 \<or> sint idx > int (length str) then (None, Push vm_Null vm)
           else if nat (sint idx) < length str
             then (None, Push (String (string_of_byte (str ! nat (sint idx)))) vm)
             else (Some Panic, vm))
        else
          (case Array_Elements left of None \<Rightarrow> (Some Panic, vm) | Some Elements \<Rightarrow>
           let max = int (length Elements) - 1 in
           if sint idx < 0 \<or> sint idx > max then (None, Push vm_Null vm)
           else if nat (sint idx) < length Elements
             then (None, Push (Elements ! nat (sint idx)) vm)
             else (Some Panic, vm)))"

section \<open>Name lookup and the reflection of the record\<close>

text \<open>
  The record a script runs against is an \<^verbatim>\<open>interface{}\<close> that \<^verbatim>\<open>inspectObject\<close> walks by
  reflection. The model keeps of it what the reflection reads: the record is nil, a map
  from strings to interface values, or a struct (or a pointer to one) with its fields in
  order; a field is seen through its \<^verbatim>\<open>Kind\<close>.

  \<^item> \<open>KInt\<close> is \<^verbatim>\<open>reflect.Int\<close> and \<^verbatim>\<open>reflect.Int64\<close>, \<open>KFloat\<close> is \<^verbatim>\<open>reflect.Float32\<close> and
    \<^verbatim>\<open>reflect.Float64\<close> (with the value of \<^verbatim>\<open>field.Float()\<close>), \<open>KOther\<close> any other kind;
  \<^item> a member of a slice is seen through the type assertions of
    \<^verbatim>\<open>createArrayFromSlice\<close>: \<open>MFloat\<close> is a \<^verbatim>\<open>float32\<close> or \<^verbatim>\<open>float64\<close> (as a \<^verbatim>\<open>float64\<close>),
    \<open>MInt\<close> an \<^verbatim>\<open>int\<close>, \<^verbatim>\<open>int32\<close> or \<^verbatim>\<open>int64\<close> (as an \<^verbatim>\<open>int64\<close>), \<open>MOther\<close> anything else.
\<close>

datatype 'f gomember = MString string | MBool bool | MFloat 'f | MInt "64 word" | MOther

datatype 'f govalue =
    KSlice "'f gomember list"
  | KInt "64 word"
  | KFloat 'f
  | KString string
  | KBool bool
  | KOther

datatype 'f gorecord =
    NilRecord
  | MapRecord "(string \<times> 'f govalue) list"
  | StructRecord "(string \<times> 'f govalue) list"

text \<open>The loop of \<^verbatim>\<open>createArrayFromSlice\<close>; \<open>el\<close> is the slice of elements found so far.\<close>

fun createArrayFromSlice_loop :: "'f gomember list \<Rightarrow> 'f Object list \<Rightarrow> error + 'f Object list" where
  "createArrayFromSlice_loop [] el = Inr el"
| "createArrayFromSlice_loop (MString s # rest) el = createArrayFromSlice_loop rest (el @ [String s])"
| "createArrayFromSlice_loop (MBool b # rest) el = createArrayFromSlice_loop rest (el @ [Boolean b])"
| "createArrayFromSlice_loop (MFloat f # rest) el = createArrayFromSlice_loop rest (el @ [Float f])"
| "createArrayFromSlice_loop (MInt d # rest) el = createArrayFromSlice_loop rest (el @ [Integer d])"
| "createArrayFromSlice_loop (MOther # rest) el = Inl Exit"

definition createArrayFromSlice :: "'f gomember list \<Rightarrow> error + 'f Object" where
  "createArrayFromSlice field =
     (case createArrayFromSlice_loop field [] of Inl e \<Rightarrow> Inl e | Inr el \<Rightarrow> Inr (Array el))"

text \<open>
  The \<^verbatim>\<open>switch field.Kind()\<close> of \<^verbatim>\<open>inspectObject\<close>, the same for a map and for a struct,
  with its default \<^verbatim>\<open>&object.Null{}\<close>.
\<close>

fun reflect_field :: "'f govalue \<Rightarrow> error + 'f Object" where
  "reflect_field (KSlice ms) = createArrayFromSlice ms"
| "reflect_field (KInt i) = Inr (Integer i)"
| "reflect_field (KFloat f) = Inr (Float f)"
| "reflect_field (KString s) = Inr (String s)"
| "reflect_field (KBool b) = Inr (Boolean b)"
| "reflect_field KOther = Inr Null"

fun inspect_loop ::
  "(string \<times> 'f govalue) list \<Rightarrow> (string \<times> 'f Object) list \<Rightarrow> error + (string \<times> 'f Object) list" where
  "inspect_loop [] fs = Inr fs"
| "inspect_loop ((name, field) # rest) fs =
     (case reflect_field field of
        Inl e \<Rightarrow> Inl e
      | Inr ret \<Rightarrow> inspect_loop rest (AList.update name ret fs))"

definition inspectObject :: "'f gorecord \<Rightarrow> 'f VM \<Rightarrow> error + 'f VM" where
  "inspectObject obj vm =
     (case obj of
        NilRecord \<Rightarrow> Inr vm
      | MapRecord kvs \<Rightarrow>
          (case inspect_loop kvs (vm_fields vm) of
             Inl e \<Rightarrow> Inl e | Inr fs \<Rightarrow> Inr (vm\<lparr>vm_fields := fs\<rparr>))
      | StructRecord kvs \<Rightarrow>
          (case inspect_loop kvs (vm_fields vm) of
             Inl e \<Rightarrow> Inl e | Inr fs \<Rightarrow> Inr (vm\<lparr>vm_fields := fs\<rparr>)))"

text \<open>\<^verbatim>\<open>strings.TrimPrefix\<close>.\<close>

definition TrimPrefix :: "string \<Rightarrow> string \<Rightarrow> string" where
  "TrimPrefix s prefix = (if take (length prefix) s = prefix then drop (length prefix) s else s)"

text \<open>
  \<^verbatim>\<open>lookup\<close> returns the value and leaves the cache of fields in the machine; it fails only
  when the reflection ends the process.
\<close>

definition lookup :: "'f gorecord \<Rightarrow> string \<Rightarrow> 'f VM \<Rightarrow> error + ('f Object \<times> 'f VM)" where
  "lookup obj name0 vm =
     (let name = TrimPrefix name0 ''$'' in
      case variables (environment vm) name of
        Some val \<Rightarrow> Inr (val, vm)
      | None \<Rightarrow>
          (case (if length (vm_fields vm) = 0 then inspectObject obj vm else Inr vm) of
             Inl e \<Rightarrow> Inl e
           | Inr vm1 \<Rightarrow>
               (case map_of (vm_fields vm1) name of
                  Some cached \<Rightarrow> Inr (cached, vm1)
                | None \<Rightarrow> Inr (vm_Null, vm1))))"

section \<open>The interpreter loop\<close>

text \<open>
  Modelled from the spec: \<^verbatim>\<open>code.Length\<close> is in package \<^verbatim>\<open>code\<close>, which is not part of
  the sources. By the table of section 4.4 of the specification the opcodes PUSH, CONSTANT,
  LOOKUP, ARRAY, JUMP, JUMP_IF_FALSE and CALL carry one operand of 16 bits, and the others
  none. The two markers \<^verbatim>\<open>OpCodeSingleArg\<close> and \<^verbatim>\<open>OpFinal\<close> and a byte that is no opcode are
  given length 1: the loop leaves with an error at each of them.
\<close>

fun Length :: "Opcode \<Rightarrow> nat" where
  "Length OpPush = 3"
| "Length OpConstant = 3"
| "Length OpLookup = 3"
| "Length OpArray = 3"
| "Length OpJump = 3"
| "Length OpJumpIfFalse = 3"
| "Length OpCall = 3"
| "Length _ = 1"

text \<open>
  \<^verbatim>\<open>binary.BigEndian.Uint16(vm.bytecode[ip+1 : ip+3])\<close>. The slice expression panics when
  the two bytes are not there (the model takes the capacity of the bytecode to be its
  length).
\<close>

definition read_operand :: "8 word list \<Rightarrow> int \<Rightarrow> nat option" where
  "read_operand bc ip =
     (if ip + 3 \<le> int (length bc)
      then Some (unat (bc ! nat (ip + 1)) * 256 + unat (bc ! nat (ip + 2)))
      else None)"

text \<open>
  The loops of the opcodes ARRAY and CALL: \<^verbatim>\<open>opArg\<close> values are popped, the first one
  popped going to the last place. \<open>acc\<close> holds the places filled so far.
\<close>

fun pop_args :: "nat \<Rightarrow> 'f VM \<Rightarrow> 'f Object list \<Rightarrow> (error \<times> 'f VM) + ('f Object list \<times> 'f VM)" where
  "pop_args 0 vm acc = Inr (acc, vm)"
| "pop_args (Suc n) vm acc =
     (case Pop vm of
        Inl err \<Rightarrow> Inl (err, vm)
      | Inr (v, vm1) \<Rightarrow> pop_args n vm1 (v # acc))"

definition binary_opcodes :: "Opcode list" where
  "binary_opcodes =
     [OpAdd, OpSub, OpMul, OpDiv, OpMod, OpPower, OpLess, OpLessEqual, OpGreater,
      OpGreaterEqual, OpEqual, OpNotEqual, OpMatches, OpNotMatches, OpAnd, OpOr]"

text \<open>
  One turn of the loop of \<^verbatim>\<open>Run\<close>, at instruction pointer \<open>ip\<close> below the length of the
  bytecode: either \<^verbatim>\<open>Run\<close> returns (\<open>Done\<close>, with the value or the error), or the loop goes
  on (\<open>Next\<close>) with the instruction pointer after \<^verbatim>\<open>ip += opLen\<close>. The instruction pointer
  is an \<^verbatim>\<open>int\<close>; it is never negative, since it starts at 0 and a turn either adds \<^verbatim>\<open>opLen\<close>
  to it or leaves it at the operand of a jump.
\<close>

datatype 'f step = Done "error + 'f Object" "'f VM" | Next "'f VM" int

definition of_status :: "'f status \<Rightarrow> int \<Rightarrow> 'f step" where
  "of_status st ip' = (case st of (Some err, vm) \<Rightarrow> Done (Inl err) vm | (None, vm) \<Rightarrow> Next vm ip')"

definition exec :: "('f, 'r) deps \<Rightarrow> 'f gorecord \<Rightarrow> 'f VM \<Rightarrow> int \<Rightarrow> 'f step" where
  "exec D obj vm ip =
     (let op = Opcode_of D (bytecode vm ! nat ip);
          opLen = Length op
      in case (if opLen > 1 then read_operand (bytecode vm) ip else Some 0) of
           None \<Rightarrow> Done (Inl Panic) vm
         | Some opArg \<Rightarrow>
      if op = OpNop then Next vm (ip + int opLen)
      else if op = OpPush then Next (Push (Integer (of_nat opArg)) vm) (ip + int opLen)
      else if op = OpConstant then
        (if opArg < length (constants vm)
         then Next (Push (constants vm ! opArg) vm) (ip + int opLen)
         else Done (Inl Panic) vm)
      else if op = OpLookup then
        (if opArg < length (constants vm)
         then (case lookup obj (Inspect D (constants vm ! opArg)) vm of
                 Inl e \<Rightarrow> Done (Inl e) vm
               | Inr (val, vm1) \<Rightarrow> Next (Push val vm1) (ip + int opLen))
         else Done (Inl Panic) vm)
      else if op = OpSet then
        (case Pop vm of Inl err \<Rightarrow> Done (Inl err) vm | Inr (name, vm1) \<Rightarrow>
         case Pop vm1 of Inl err \<Rightarrow> Done (Inl err) vm1 | Inr (val, vm2) \<Rightarrow>
         Next (vm2\<lparr>environment := (environment vm2)
                 \<lparr>variables := (variables (environment vm2))(Inspect D name \<mapsto> val)\<rparr>\<rparr>)
              (ip + int opLen))
      else if op \<in> set binary_opcodes then
        of_status (executeBinaryOperation D op vm) (ip + int opLen)
      else if op = OpArray then
        (case pop_args opArg vm [] of
           Inl (err, vm1) \<Rightarrow> Done (Inl err) vm1
         | Inr (elements, vm1) \<Rightarrow> Next (Push (Array elements) vm1) (ip + int opLen))
      else if op = OpArrayIndex then
        (case Pop vm of Inl err \<Rightarrow> Done (Inl err) vm | Inr (index, vm1) \<Rightarrow>
         case Pop vm1 of Inl err \<Rightarrow> Done (Inl err) vm1 | Inr (left, vm2) \<Rightarrow>
         of_status (executeIndexExpression D left index vm2) (ip + int opLen))
      else if op = OpBang then of_status (executeBangOperator vm) (ip + int opLen)
      else if op = OpMinus then of_status (executeMinusOperator D vm) (ip + int opLen)
      else if op = OpRoot then of_status (executeSquareRoot D vm) (ip + int opLen)
      else if op = OpTrue then Next (Push vm_True vm) (ip + int opLen)
      else if op = OpFalse then Next (Push vm_False vm) (ip + int opLen)
      else if op = OpReturn then
        (case Pop vm of Inl err \<Rightarrow> Done (Inl err) vm | Inr (result, vm1) \<Rightarrow> Done (Inr result) vm1)
      else if op = OpJump then Next vm (int opArg - int opLen + int opLen)
      else if op = OpJumpIfFalse then
        (case Pop vm of Inl err \<Rightarrow> Done (Inl err) vm | Inr (condition, vm1) \<Rightarrow>
         if \<not> object_True D condition
         then Next vm1 (int opArg - int opLen + int opLen)
         else Next vm1 (ip + int opLen))
      else if op = OpCall then
        (case Pop vm of Inl err \<Rightarrow> Done (Inl err) vm | Inr (fName, vm1) \<Rightarrow>
         case pop_args opArg vm1 [] of
           Inl (err, vm2) \<Rightarrow> Done (Inl err) vm2
         | Inr (fnArgs, vm2) \<Rightarrow>
             (case callables (environment vm2) (Inspect D fName) of
                None \<Rightarrow> Done (Inl (UnknownFunction (Inspect D fName))) vm2
              | Some fn \<Rightarrow> Next (Push (fn fnArgs) vm2) (ip + int opLen)))
      else if op = OpCodeSingleArg \<or> op = OpFinal then Done (Inl FakeInstruction) vm
      else Done (Inl UnhandledOpcode) vm)"

text \<open>
  The loop of \<^verbatim>\<open>Run\<close>. It need not end (a program can jump backwards), so it is a
  partial function: \<open>None\<close> is a run that never returns. The result is what \<^verbatim>\<open>Run\<close>
  returns together with the machine it leaves behind.
\<close>

partial_function (option) run_loop ::
  "('f, 'r) deps \<Rightarrow> 'f gorecord \<Rightarrow> 'f VM \<Rightarrow> int \<Rightarrow> ((error + 'f Object) \<times> 'f VM) option" where
  "run_loop D obj vm ip =
     (if ip < int (length (bytecode vm))
      then (case exec D obj vm ip of
              Done r vm1 \<Rightarrow> Some (r, vm1)
            | Next vm1 ip1 \<Rightarrow> run_loop D obj vm1 ip1)
      else Some (Inl MissingReturn, vm))"

declare run_loop.simps [code]

definition Run :: "('f, 'r) deps \<Rightarrow> 'f gorecord \<Rightarrow> 'f VM \<Rightarrow> ((error + 'f Object) \<times> 'f VM) option" where
  "Run D obj vm =
     (if length (bytecode vm) < 1 then Some (Inl EmptyProgram, vm)
      else run_loop D obj (vm\<lparr>vm_fields := []\<rparr>) 0)"

section \<open>The built-in functions\<close>

text \<open>
  The functions of \<^verbatim>\<open>environment/builtins.go\<close>. Each takes the slice of arguments and
  returns a freshly allocated object. \<^verbatim>\<open>fmt.Sprintf("%v", s)\<close> of a string is the string.
\<close>

definition fnFloat :: "('f, 'r) deps \<Rightarrow> 'f Object list \<Rightarrow> 'f Object" where
  "fnFloat D args =
     (if length args \<noteq> 1 then Null
      else let str = Inspect D (args ! 0)
           in case ParseFloat D str of None \<Rightarrow> Null | Some i \<Rightarrow> Float i)"

definition fnInt :: "('f, 'r) deps \<Rightarrow> 'f Object list \<Rightarrow> 'f Object" where
  "fnInt D args =
     (if length args \<noteq> 1 then Null
      else let str = Inspect D (args ! 0)
           in case ParseInt D str of None \<Rightarrow> Null | Some i \<Rightarrow> Integer i)"

definition fnLen :: "('f, 'r) deps \<Rightarrow> 'f Object list \<Rightarrow> 'f Object" where
  "fnLen D args =
     (if length args \<noteq> 1 then Null
      else case Array_Elements (args ! 0) of
             Some Elements \<Rightarrow> Integer (of_nat (length Elements))
           | None \<Rightarrow>
               (let str = Inspect D (args ! 0); sum = RuneCountInString D str
                in Integer (of_nat sum)))"

definition fnLower :: "('f, 'r) deps \<Rightarrow> 'f Object list \<Rightarrow> 'f Object" where
  "fnLower D args =
     (if length args \<noteq> 1 then Null
      else String (ToLower D (Inspect D (args ! 0))))"

text \<open>\<^verbatim>\<open>strings.Split\<close> with a separator of one byte.\<close>

fun Split :: "string \<Rightarrow> char \<Rightarrow> string list" where
  "Split [] sep = [[]]"
| "Split (c # cs) sep =
     (if c = sep then [] # Split cs sep
      else (case Split cs sep of [] \<Rightarrow> [[c]] | l # ls \<Rightarrow> (c # l) # ls))"

text \<open>The loop of \<^verbatim>\<open>fnMatch\<close> over the lines, with the compiled expression \<open>r\<close>.\<close>

fun match_lines :: "('f, 'r) deps \<Rightarrow> 'r \<Rightarrow> string list \<Rightarrow> 'f Object" where
  "match_lines D r [] = Boolean False"
| "match_lines D r (s # rest) =
     (let s' = TrimSpace D s
      in if MatchString D r s' then Boolean True else match_lines D r rest)"

text \<open>
  \<^verbatim>\<open>fnMatch\<close> reads and writes the package-level cache \<^verbatim>\<open>regCache\<close>: it takes the cache and
  returns it with the result. (The message printed for an expression that does not compile
  is not part of the model.)
\<close>

definition fnMatch ::
  "('f, 'r) deps \<Rightarrow> (string \<rightharpoonup> 'r) \<Rightarrow> 'f Object list \<Rightarrow> 'f Object \<times> (string \<rightharpoonup> 'r)" where
  "fnMatch D regCache args =
     (if length args \<noteq> 2 then (Boolean False, regCache)
      else
        let str = Inspect D (args ! 0); reg = Inspect D (args ! 1)
        in case regCache reg of
             Some r \<Rightarrow> (match_lines D r (Split str (CHR 0x0A)), regCache)
           | None \<Rightarrow>
               (case Compile D reg of
                  None \<Rightarrow> (Boolean False, regCache)
                | Some r \<Rightarrow> (match_lines D r (Split str (CHR 0x0A)), regCache(reg \<mapsto> r))))"

definition fnString :: "('f, 'r) deps \<Rightarrow> 'f Object list \<Rightarrow> 'f Object" where
  "fnString D args =
     (if length args \<noteq> 1 then Null
      else String (Inspect D (args ! 0)))"

definition fnTrim :: "('f, 'r) deps \<Rightarrow> 'f Object list \<Rightarrow> 'f Object" where
  "fnTrim D args =
     (let str = foldl (\<lambda>str e. str @ Inspect D e) [] args
      in String (TrimSpace D str))"

definition fnType :: "('f, 'r) deps \<Rightarrow> 'f Object list \<Rightarrow> 'f Object" where
  "fnType D args =
     (if length args \<noteq> 1 then Null
      else let arg = args ! 0; val = type_text D (object_Type arg)
           in String (ToLower D val))"

text \<open>\<^verbatim>\<open>fnPrint\<close>: the text written to the standard output, and the object returned.\<close>

definition fnPrint :: "('f, 'r) deps \<Rightarrow> 'f Object list \<Rightarrow> string \<times> 'f Object" where
  "fnPrint D args = (foldl (\<lambda>out e. out @ Inspect D e) [] args, Integer 0)"

definition fnUpper :: "('f, 'r) deps \<Rightarrow> 'f Object list \<Rightarrow> 'f Object" where
  "fnUpper D args =
     (if length args \<noteq> 1 then Null
      else String (ToUpper D (Inspect D (args ! 0))))"

section \<open>An instance of the parameters\<close>

text \<open>
  To run the model on concrete inputs the parameters need values. This instance takes
  integers for the floats, a plain substring search for the regular expressions (a pattern
  with an opening parenthesis does not compile), ASCII for the functions on strings, and the opcodes numbered in the order of their declaration
  above. It is used only where a statement is evaluated at a concrete input.
\<close>

fun has_prefix :: "string \<Rightarrow> string \<Rightarrow> bool" where
  "has_prefix [] s = True"
| "has_prefix (c # cs) [] = False"
| "has_prefix (c # cs) (d # ds) = (c = d \<and> has_prefix cs ds)"

fun has_substring :: "string \<Rightarrow> string \<Rightarrow> bool" where
  "has_substring p [] = (p = [])"
| "has_substring p (c # cs) = (has_prefix p (c # cs) \<or> has_substring p cs)"

definition ascii_space :: "char \<Rightarrow> bool" where
  "ascii_space c = (c \<in> set [CHR 0x09, CHR 0x0A, CHR 0x0B, CHR 0x0C, CHR 0x0D, CHR 0x20])"

definition ascii_upper :: "char \<Rightarrow> char" where
  "ascii_upper c =
     (let n = (of_char c :: nat) in if 97 \<le> n \<and> n \<le> 122 then char_of (n - 32) else c)"

definition ascii_lower :: "char \<Rightarrow> char" where
  "ascii_lower c =
     (let n = (of_char c :: nat) in if 65 \<le> n \<and> n \<le> 90 then char_of (n + 32) else c)"

definition sample_opcodes :: "Opcode list" where
  "sample_opcodes =
     [OpNop, OpPush, OpConstant, OpLookup, OpSet, OpAdd, OpSub, OpMul, OpDiv, OpMod, OpPower,
      OpLess, OpLessEqual, OpGreater, OpGreaterEqual, OpEqual, OpNotEqual, OpMatches,
      OpNotMatches, OpAnd, OpOr, OpArray, OpArrayIndex, OpBang, OpMinus, OpRoot, OpTrue,
      OpFalse, OpReturn, OpJump, OpJumpIfFalse, OpCall, OpCodeSingleArg, OpFinal]"

definition sample_type_text :: "Type \<Rightarrow> string" where
  "sample_type_text t =
     (case t of INTEGER \<Rightarrow> ''INTEGER'' | FLOAT \<Rightarrow> ''FLOAT'' | STRING \<Rightarrow> ''STRING''
      | BOOLEAN \<Rightarrow> ''BOOLEAN'' | NULL \<Rightarrow> ''NULL'' | ARRAY \<Rightarrow> ''ARRAY'')"

definition sample :: "(int, string) deps" where
  "sample =
     \<lparr> fadd = (+), fsub = (-), fmul = (*), fdiv = (\<lambda>a b. a sdiv b),
       Pow = (\<lambda>a b. a ^ nat b), Sqrt = (\<lambda>a. a), fneg = uminus,
       flt = (<), fle = (\<le>), feq = (=),
       float64_of = sint, int_of = word_of_int,
       FormatFloat = decimal,
       ParseFloat = (\<lambda>s. None), ParseInt = (\<lambda>s. None),
       RuneCountInString = length,
       ToLower = map ascii_lower, ToUpper = map ascii_upper,
       TrimSpace = (\<lambda>s. rev (dropWhile ascii_space (rev (dropWhile ascii_space s)))),
       Compile = (\<lambda>p. if CHR ''('' \<in> set p then None else Some p), MatchString = has_substring,
       null_text = ''null'', type_text = sample_type_text,
       Opcode_of = (\<lambda>b. if unat b < length sample_opcodes then sample_opcodes ! unat b else OpUnknown) \<rparr>"

text \<open>A machine with the given bytecode, constants and stack, and nothing else.\<close>

definition machine :: "8 word list \<Rightarrow> 'f Object list \<Rightarrow> 'f Object list \<Rightarrow> 'f VM" where
  "machine bc cs stk =
     \<lparr> constants = cs, bytecode = bc, stack = stk,
       environment = \<lparr> variables = Map.empty, callables = Map.empty \<rparr>,
       vm_fields = [] \<rparr>"

section \<open>Vocabulary of the statements\<close>

text \<open>
  The opcodes whose result is a truth value: the comparisons, the two equalities, the two
  regular-expression matches, and the two logical connectives.
\<close>

definition comparison_opcodes :: "Opcode list" where
  "comparison_opcodes =
     [OpLess, OpLessEqual, OpGreater, OpGreaterEqual, OpEqual, OpNotEqual,
      OpMatches, OpNotMatches, OpAnd, OpOr]"

text \<open>
  \<open>pushes op vm vm'\<close>: the machine \<open>vm'\<close> is \<open>vm\<close> with one value pushed, and that value is
  \<^verbatim>\<open>True\<close> or \<^verbatim>\<open>False\<close> themselves whenever it is a Boolean or \<open>op\<close> is one of
  \<open>comparison_opcodes\<close>.
\<close>

definition pushed_ok :: "Opcode \<Rightarrow> 'f Object \<Rightarrow> bool" where
  "pushed_ok op v =
     (if op \<in> set comparison_opcodes \<or> object_Type v = BOOLEAN
      then v = vm_True \<or> v = vm_False else True)"

definition pushes :: "Opcode \<Rightarrow> 'f VM \<Rightarrow> 'f VM \<Rightarrow> bool" where
  "pushes op vm vm' = (vm' = Push (hd (stack vm')) vm \<and> pushed_ok op (hd (stack vm')))"


text \<open>
  Modelled from the spec: the compiler is not part of the sources. By section 4.3 of the
  specification the statement \<^verbatim>\<open>return 10 / 0;\<close> is lowered to the two literals, each
  pushed by PUSH with the value as its operand or by CONSTANT with its index in the pool of
  constants, then the opcode DIV, then RETURN. The arguments are the bytes of the opcodes.
\<close>

definition return_quotient_push :: "8 word \<Rightarrow> 8 word \<Rightarrow> 8 word \<Rightarrow> 8 word list" where
  "return_quotient_push b_push b_div b_ret = [b_push, 0, 10, b_push, 0, 0, b_div, b_ret]"

definition return_quotient_constant :: "8 word \<Rightarrow> 8 word \<Rightarrow> 8 word \<Rightarrow> 8 word list" where
  "return_quotient_constant b_const b_div b_ret = [b_const, 0, 0, b_const, 0, 1, b_div, b_ret]"

text \<open>The pairs of operand types that the first five arms of the dispatch take.\<close>

definition typed_pair :: "'f Object \<Rightarrow> 'f Object \<Rightarrow> bool" where
  "typed_pair left right =
     (object_Type left = INTEGER \<and> object_Type right = INTEGER
      \<or> object_Type left = FLOAT \<and> object_Type right = FLOAT
      \<or> object_Type left = FLOAT \<and> object_Type right = INTEGER
      \<or> object_Type left = INTEGER \<and> object_Type right = FLOAT
      \<or> object_Type left = STRING \<and> object_Type right = STRING)"


section \<open>Basic facts\<close>

lemmas exec_eval =
  exec_def read_operand_def binary_opcodes_def of_status_def Push_def Pop_def

lemmas sample_eval = sample_def sample_opcodes_def

lemma Pop_Nil: "stack vm = [] \<Longrightarrow> Pop vm = Inl StackUnderflow"
  by (simp add: Pop_def)

lemma Pop_Cons: "stack vm = v # s \<Longrightarrow> Pop vm = Inr (v, vm\<lparr>stack := s\<rparr>)"
  by (simp add: Pop_def)

lemma run_loop_end:
  "\<not> ip < int (length (bytecode vm)) \<Longrightarrow> run_loop D obj vm ip = Some (Inl MissingReturn, vm)"
  by (subst run_loop.simps) simp

lemma run_loop_Done:
  "ip < int (length (bytecode vm)) \<Longrightarrow> exec D obj vm ip = Done r vm1 \<Longrightarrow>
   run_loop D obj vm ip = Some (r, vm1)"
  by (subst run_loop.simps) simp

lemma run_loop_Next:
  "ip < int (length (bytecode vm)) \<Longrightarrow> exec D obj vm ip = Next vm1 ip1 \<Longrightarrow>
   run_loop D obj vm ip = run_loop D obj vm1 ip1"
  by (subst run_loop.simps) simp

text \<open>\<^verbatim>\<open>executeBinaryOperation\<close> once both operands are popped.\<close>

lemma binary_unfold:
  assumes st: "stack vm = right # left # s"
  shows "executeBinaryOperation D op vm =
     (let vm2 = vm\<lparr>stack := s\<rparr> in
      if object_Type left = INTEGER \<and> object_Type right = INTEGER then
        evalIntegerInfixExpression D op left right vm2
      else if object_Type left = FLOAT \<and> object_Type right = FLOAT then
        evalFloatInfixExpression D op left right vm2
      else if object_Type left = FLOAT \<and> object_Type right = INTEGER then
        evalFloatIntegerInfixExpression D op left right vm2
      else if object_Type left = INTEGER \<and> object_Type right = FLOAT then
        evalIntegerFloatInfixExpression D op left right vm2
      else if object_Type left = STRING \<and> object_Type right = STRING then
        evalStringInfixExpression op left right vm2
      else if op = OpAnd then
        (if \<not> object_True D left then (None, Push vm_False vm2)
         else if object_True D right then (None, Push vm_True vm2)
         else (None, Push vm_False vm2))
      else if op = OpOr then
        (if object_True D left then (None, Push vm_True vm2)
         else if object_True D right then (None, Push vm_True vm2)
         else (None, Push vm_False vm2))
      else if object_Type left = BOOLEAN \<and> object_Type right = BOOLEAN then
        evalBooleanInfixExpression D op left right vm2
      else if object_Type left \<noteq> object_Type right then (Some TypeMismatch, vm2)
      else (Some UnknownOperator, vm2))"
  unfolding executeBinaryOperation_def Pop_def Let_def using st by simp

lemma binary_success_stack:
  assumes "executeBinaryOperation D op vm = (None, vm')"
  shows "\<exists>right left s. stack vm = right # left # s"
proof (cases "stack vm")
  case Nil
  with assms show ?thesis by (simp add: executeBinaryOperation_def Pop_def)
next
  case (Cons right s1)
  with assms show ?thesis
    by (cases s1) (simp_all add: executeBinaryOperation_def Pop_def)
qed

section \<open>The logical connectives\<close>

text \<open>
  Where no typed arm of the dispatch takes the pair of operands, AND and OR work on the
  truth values of the operands and push \<^verbatim>\<open>True\<close> or \<^verbatim>\<open>False\<close>.
\<close>

lemma and_or_untyped_operands:
  assumes st: "stack vm = right # left # s"
    and "\<not> (object_Type left = INTEGER \<and> object_Type right = INTEGER)"
    and "\<not> (object_Type left = FLOAT \<and> object_Type right = FLOAT)"
    and "\<not> (object_Type left = FLOAT \<and> object_Type right = INTEGER)"
    and "\<not> (object_Type left = INTEGER \<and> object_Type right = FLOAT)"
    and "\<not> (object_Type left = STRING \<and> object_Type right = STRING)"
  shows "executeBinaryOperation D OpAnd vm =
           (None, Push (nativeBoolToBooleanObject (object_True D left \<and> object_True D right))
                    (vm\<lparr>stack := s\<rparr>))"
    and "executeBinaryOperation D OpOr vm =
           (None, Push (nativeBoolToBooleanObject (object_True D left \<or> object_True D right))
                    (vm\<lparr>stack := s\<rparr>))"
  unfolding binary_unfold [OF st] Let_def
  by (simp_all only: assms(2-) if_False) (simp_all add: nativeBoolToBooleanObject_def)

text \<open>
  Where a typed arm takes the pair of operands, AND and OR are unknown operators, whatever
  the values.
\<close>

lemma and_or_typed_operands:
  assumes st: "stack vm = right # left # s" and tp: "typed_pair left right"
    and op: "op = OpAnd \<or> op = OpOr"
  shows "executeBinaryOperation D op vm = (Some UnknownOperator, vm\<lparr>stack := s\<rparr>)"
proof -
  from tp consider
      (ii) i j where "left = Integer i" "right = Integer j"
    | (ff) f g where "left = Float f" "right = Float g"
    | (fi) f j where "left = Float f" "right = Integer j"
    | (if') i g where "left = Integer i" "right = Float g"
    | (ss) a b where "left = String a" "right = String b"
    unfolding typed_pair_def by (cases left; cases right; simp)
  then show ?thesis
  proof cases
    case ii with op show ?thesis
      unfolding binary_unfold [OF st] by (auto simp: evalIntegerInfixExpression_def)
  next
    case ff with op show ?thesis
      unfolding binary_unfold [OF st]
      by (auto simp: evalFloatInfixExpression_def float_switch_def)
  next
    case fi with op show ?thesis
      unfolding binary_unfold [OF st]
      by (auto simp: evalFloatIntegerInfixExpression_def float_switch_def)
  next
    case if' with op show ?thesis
      unfolding binary_unfold [OF st]
      by (auto simp: evalIntegerFloatInfixExpression_def float_switch_def)
  next
    case ss with op show ?thesis
      unfolding binary_unfold [OF st] by (auto simp: evalStringInfixExpression_def)
  qed
qed

text \<open>
  Claim C1. The claim: for operands of any types AND pushes false when the left operand is
  not truthy and the truthiness of the right operand otherwise, OR pushes true when the
  left operand is truthy and the truthiness of the right operand otherwise; in particular
  for two Integers, two Floats, two Strings, and an Integer with a Float.

  The code does not do this for these four pairs. In \<^verbatim>\<open>executeBinaryOperation\<close> the arms
  for the typed pairs stand before the arms for AND and OR, and the \<^verbatim>\<open>switch\<close> of each typed
  function has no case for the two opcodes: the operation fails with "unknown operator"
  (\<open>and_or_typed_operands\<close>), while the arms for AND and OR, once reached, take operands of
  any type (\<open>and_or_untyped_operands\<close>). The theorem evaluates the code on such operands,
  and on the bytecode PUSH 1, PUSH 2, AND, RETURN.
\<close>

theorem and_or_preempted_by_typed_arms:
  "executeBinaryOperation sample OpAnd (machine [] [] [Integer 2, Integer 1])
     = (Some UnknownOperator, machine [] [] [])
   \<and> executeBinaryOperation sample OpOr (machine [] [] [Integer 0, Integer 1])
     = (Some UnknownOperator, machine [] [] [])
   \<and> executeBinaryOperation sample OpAnd (machine [] [] [Float 2, Float 1])
     = (Some UnknownOperator, machine [] [] [])
   \<and> executeBinaryOperation sample OpAnd (machine [] [] [String ''b'', String ''a''])
     = (Some UnknownOperator, machine [] [] [])
   \<and> executeBinaryOperation sample OpOr (machine [] [] [Float 2, Integer 1])
     = (Some UnknownOperator, machine [] [] [])
   \<and> Run sample NilRecord (machine [1, 0, 1, 1, 0, 2, 19, 28] [] [])
     = Some (Inl UnknownOperator, machine [1, 0, 1, 1, 0, 2, 19, 28] [] [])"
  by (simp add: Run_def machine_def run_loop.simps exec_eval sample_eval
        executeBinaryOperation_def evalIntegerInfixExpression_def evalFloatInfixExpression_def
        evalIntegerFloatInfixExpression_def evalStringInfixExpression_def float_switch_def)

section \<open>Indexing\<close>

text \<open>
  What holds of \<^verbatim>\<open>executeIndexExpression\<close>: an Array, and a String away from its length.
  The String pushed for a byte from 128 on has two bytes (\<open>index_string_high_byte\<close>).
\<close>

lemma index_array:
  "executeIndexExpression D (Array els) (Integer idx) vm =
     (None, Push (if 0 \<le> sint idx \<and> sint idx < int (length els)
                  then els ! nat (sint idx) else vm_Null) vm)"
  by (auto simp: executeIndexExpression_def)

lemma index_string_not_at_length:
  "sint idx \<noteq> int (length str) \<Longrightarrow>
   executeIndexExpression D (String str) (Integer idx) vm =
     (None, Push (if 0 \<le> sint idx \<and> sint idx < int (length str)
                  then String (string_of_byte (str ! nat (sint idx))) else vm_Null) vm)"
  by (auto simp: executeIndexExpression_def)

lemma index_string_high_byte:
  "executeIndexExpression D (String [CHR 0xC3, CHR 0xA9]) (Integer 0) vm =
     (None, Push (String [CHR 0xC3, CHR 0x83]) vm)"
  by (simp add: executeIndexExpression_def string_of_byte_def char_of_def bit_Suc_0_iff)

text \<open>
  Claim C2. The claim: on an Array and an Integer, an index that is negative or not below the
  number of elements pushes Null; on a String and an Integer, an index that is negative or
  not below the length in bytes pushes Null, and one in range pushes a String of one byte;
  in particular the index equal to the length gives Null and does not fail.

  The code does this for an Array (\<open>index_array\<close>). For a String its bound check is
  \<^verbatim>\<open>int(idx) > len(str)\<close>, so the index equal to the length passes the check and \<^verbatim>\<open>str[idx]\<close>
  panics. The theorem evaluates the code there.
\<close>

theorem index_string_at_length_panics:
  "executeIndexExpression sample (String ''abc'') (Integer 3) (machine [] [] [])
     = (Some Panic, machine [] [] [])
   \<and> Run sample NilRecord (machine [2, 0, 0, 1, 0, 3, 22, 28] [String ''abc''] [])
     = Some (Inl Panic, machine [2, 0, 0, 1, 0, 3, 22, 28] [String ''abc''] [])"
  by (simp add: Run_def machine_def run_loop.simps exec_eval sample_eval
        executeIndexExpression_def)

section \<open>Logical negation\<close>

text \<open>What holds of \<^verbatim>\<open>executeBangOperator\<close>: the three globals, and every value that is no Boolean.\<close>

lemma bang_globals:
  "executeBangOperator (Push vm_True vm) = (None, Push vm_False vm)"
  "executeBangOperator (Push vm_False vm) = (None, Push vm_True vm)"
  "executeBangOperator (Push vm_Null vm) = (None, Push vm_True vm)"
  by (simp_all add: executeBangOperator_def Pop_def Push_def)

lemma bang_other:
  "object_Type v \<noteq> BOOLEAN \<Longrightarrow> object_Type v \<noteq> NULL \<Longrightarrow>
   executeBangOperator (Push v vm) = (None, Push vm_False vm)"
  by (cases v) (simp_all add: executeBangOperator_def Pop_def Push_def)

text \<open>
  Claim C3. The claim: BANG pushes false for true, true for false, true for Null and false
  for any other value, also when the operand is a Boolean that is not one of the shared
  objects \<^verbatim>\<open>True\<close> and \<^verbatim>\<open>False\<close>, such as one made by the reflection of the record.

  The code compares the operand with the three shared objects by identity. A Boolean
  \<^verbatim>\<open>false\<close> from the reflection is none of them, falls to the \<^verbatim>\<open>default\<close> arm, and its
  negation is \<^verbatim>\<open>False\<close>. The theorem evaluates the code on such an operand, and on the
  bytecode LOOKUP Flag, BANG, RETURN against the record that maps Flag to false.
\<close>

theorem bang_on_reflected_false:
  "executeBangOperator (machine [] [] [Boolean False :: int Object])
     = (None, machine [] [] [vm_False])
   \<and> Run sample (MapRecord [(''Flag'', KBool False)])
         (machine [3, 0, 0, 23, 28] [String ''Flag''] [])
     = Some (Inr vm_False,
             (machine [3, 0, 0, 23, 28] [String ''Flag''] [])
               \<lparr>vm_fields := [(''Flag'', Boolean False)]\<rparr>)"
  by (simp add: Run_def machine_def run_loop.simps exec_eval sample_eval lookup_def
        TrimPrefix_def inspectObject_def executeBangOperator_def)

section \<open>Truth values pushed by the machine\<close>

lemma pushes_native: "pushes op vm (Push (nativeBoolToBooleanObject b) vm)"
  by (simp add: pushes_def pushed_ok_def nativeBoolToBooleanObject_def Push_def)

lemma pushes_True: "pushes op vm (Push vm_True vm)"
  and pushes_False: "pushes op vm (Push vm_False vm)"
  by (simp_all add: pushes_def pushed_ok_def Push_def)

lemma pushes_other:
  "op \<notin> set comparison_opcodes \<Longrightarrow> object_Type v \<noteq> BOOLEAN \<Longrightarrow> pushes op vm (Push v vm)"
  by (simp add: pushes_def pushed_ok_def Push_def)

lemma evalInteger_pushes:
  "evalIntegerInfixExpression D op l r vm = (None, vm') \<Longrightarrow> pushes op vm vm'"
  unfolding evalIntegerInfixExpression_def
  by (cases op; clarsimp split: option.splits if_splits;
      (simp add: pushes_native)?; (rule pushes_other; simp add: comparison_opcodes_def)?)

lemma float_switch_pushes:
  "float_switch D op l r vm = (None, vm') \<Longrightarrow> pushes op vm vm'"
  unfolding float_switch_def
  by (cases op; clarsimp split: option.splits if_splits;
      (simp add: pushes_native)?; (rule pushes_other; simp add: comparison_opcodes_def)?)

lemma evalString_pushes:
  "evalStringInfixExpression op l r vm = (None, vm') \<Longrightarrow> pushes op vm vm'"
  unfolding evalStringInfixExpression_def
  by (cases op; clarsimp split: option.splits if_splits;
      (simp add: pushes_native pushes_True pushes_False)?;
      (rule pushes_other; simp add: comparison_opcodes_def)?)

lemma evalFloat_pushes:
  "evalFloatInfixExpression D op l r vm = (None, vm') \<Longrightarrow> pushes op vm vm'"
  "evalFloatIntegerInfixExpression D op l r vm = (None, vm') \<Longrightarrow> pushes op vm vm'"
  "evalIntegerFloatInfixExpression D op l r vm = (None, vm') \<Longrightarrow> pushes op vm vm'"
  unfolding evalFloatInfixExpression_def evalFloatIntegerInfixExpression_def
    evalIntegerFloatInfixExpression_def
  by (simp_all split: option.splits add: float_switch_pushes)

lemma evalBoolean_pushes:
  "evalBooleanInfixExpression D op l r vm = (None, vm') \<Longrightarrow> pushes op vm vm'"
  unfolding evalBooleanInfixExpression_def by (simp add: evalString_pushes)

lemma binary_pushes:
  assumes ok: "executeBinaryOperation D op vm = (None, vm')"
  shows "pushes op (vm\<lparr>stack := drop 2 (stack vm)\<rparr>) vm'"
proof -
  from binary_success_stack [OF ok] obtain right left s
    where st: "stack vm = right # left # s" by blast
  define vm2 where "vm2 = vm\<lparr>stack := s\<rparr>"
  have d: "vm\<lparr>stack := drop 2 (stack vm)\<rparr> = vm2" using st by (simp add: vm2_def)
  note u = ok [unfolded binary_unfold [OF st] Let_def, folded vm2_def]
  let ?II = "object_Type left = INTEGER \<and> object_Type right = INTEGER"
  let ?FF = "object_Type left = FLOAT \<and> object_Type right = FLOAT"
  let ?FI = "object_Type left = FLOAT \<and> object_Type right = INTEGER"
  let ?IF = "object_Type left = INTEGER \<and> object_Type right = FLOAT"
  let ?SS = "object_Type left = STRING \<and> object_Type right = STRING"
  let ?BB = "object_Type left = BOOLEAN \<and> object_Type right = BOOLEAN"
  consider (ii) ?II | (ff) "\<not> ?II" ?FF | (fi) "\<not> ?II" "\<not> ?FF" ?FI
    | (if') "\<not> ?II" "\<not> ?FF" "\<not> ?FI" ?IF
    | (ss) "\<not> ?II" "\<not> ?FF" "\<not> ?FI" "\<not> ?IF" ?SS
    | (other) "\<not> ?II" "\<not> ?FF" "\<not> ?FI" "\<not> ?IF" "\<not> ?SS"
    by blast
  then have "pushes op vm2 vm'"
  proof cases
    case ii with u show ?thesis by (simp add: evalInteger_pushes)
  next
    case ff with u show ?thesis by (simp add: evalFloat_pushes)
  next
    case fi with u show ?thesis by (simp add: evalFloat_pushes)
  next
    case if' with u show ?thesis by (simp add: evalFloat_pushes)
  next
    case ss with u show ?thesis by (simp add: evalString_pushes)
  next
    case other
    with u have v: "(if op = OpAnd then
        (if \<not> object_True D left then (None, Push vm_False vm2)
         else if object_True D right then (None, Push vm_True vm2)
         else (None, Push vm_False vm2))
      else if op = OpOr then
        (if object_True D left then (None, Push vm_True vm2)
         else if object_True D right then (None, Push vm_True vm2)
         else (None, Push vm_False vm2))
      else if ?BB then
        evalBooleanInfixExpression D op left right vm2
      else if object_Type left \<noteq> object_Type right then (Some TypeMismatch, vm2)
      else (Some UnknownOperator, vm2)) = (None, vm')" by simp
    show ?thesis
    proof (cases "op = OpAnd \<or> op = OpOr")
      case True
      with v show ?thesis by (auto simp: pushes_True pushes_False split: if_splits)
    next
      case False
      with v show ?thesis by (simp add: evalBoolean_pushes split: if_splits)
    qed
  qed
  then show ?thesis by (simp add: d)
qed

lemma exec_binary:
  "Opcode_of D (bytecode vm ! nat ip) = op \<Longrightarrow> op \<in> set binary_opcodes \<Longrightarrow>
   exec D obj vm ip = of_status (executeBinaryOperation D op vm) (ip + 1)"
  by (auto simp: exec_def binary_opcodes_def)

text \<open>
  Claim C9. Every Boolean that the machine itself pushes is one of the two shared objects
  \<^verbatim>\<open>True\<close> and \<^verbatim>\<open>False\<close>: \<^verbatim>\<open>nativeBoolToBooleanObject\<close> returns one of them; the opcodes TRUE
  and FALSE push them; a binary operation that succeeds pushes one value on the stack below
  its two operands, this value is \<^verbatim>\<open>True\<close> or \<^verbatim>\<open>False\<close> for every comparison, equality,
  match and logical opcode, and for every opcode it is \<^verbatim>\<open>True\<close> or \<^verbatim>\<open>False\<close> when it is a
  Boolean at all; the same holds of the step of the loop at a binary opcode.
\<close>

theorem vm_booleans_are_canonical:
  "(nativeBoolToBooleanObject b = (vm_True :: 'f Object) \<or> nativeBoolToBooleanObject b = (vm_False :: 'f Object))
   \<and> (Opcode_of D (bytecode vm ! nat ip) = OpTrue \<longrightarrow>
        exec D obj vm ip = Next (Push vm_True vm) (ip + 1))
   \<and> (Opcode_of D (bytecode vm ! nat ip) = OpFalse \<longrightarrow>
        exec D obj vm ip = Next (Push vm_False vm) (ip + 1))
   \<and> (executeBinaryOperation D op (vm :: 'f VM) = (None, vm') \<longrightarrow>
        (\<exists>v. vm' = Push v (vm\<lparr>stack := drop 2 (stack vm)\<rparr>)
           \<and> (op \<in> set comparison_opcodes \<longrightarrow> v = vm_True \<or> v = vm_False)
           \<and> (object_Type v = BOOLEAN \<longrightarrow> v = vm_True \<or> v = vm_False)))
   \<and> (Opcode_of D (bytecode vm ! nat ip) = op \<and> op \<in> set binary_opcodes
        \<and> exec D obj vm ip = Next vm' ip' \<longrightarrow>
        (\<exists>v. vm' = Push v (vm\<lparr>stack := drop 2 (stack vm)\<rparr>)
           \<and> (op \<in> set comparison_opcodes \<longrightarrow> v = vm_True \<or> v = vm_False)
           \<and> (object_Type v = BOOLEAN \<longrightarrow> v = vm_True \<or> v = vm_False)))"
proof -
  have native: "nativeBoolToBooleanObject b = (vm_True :: 'f Object) \<or> nativeBoolToBooleanObject b = (vm_False :: 'f Object)"
    by (simp add: nativeBoolToBooleanObject_def)
  have t: "Opcode_of D (bytecode vm ! nat ip) = OpTrue \<longrightarrow>
        exec D obj vm ip = Next (Push vm_True vm) (ip + 1)"
    by (simp add: exec_def binary_opcodes_def)
  have f: "Opcode_of D (bytecode vm ! nat ip) = OpFalse \<longrightarrow>
        exec D obj vm ip = Next (Push vm_False vm) (ip + 1)"
    by (simp add: exec_def binary_opcodes_def)
  have bin: "\<exists>v. vm'' = Push v (vm\<lparr>stack := drop 2 (stack vm)\<rparr>)
           \<and> (op \<in> set comparison_opcodes \<longrightarrow> v = vm_True \<or> v = vm_False)
           \<and> (object_Type v = BOOLEAN \<longrightarrow> v = vm_True \<or> v = vm_False)"
    if "executeBinaryOperation D op vm = (None, vm'')" for vm''
  proof -
    from binary_pushes [OF that]
    have "vm'' = Push (hd (stack vm'')) (vm\<lparr>stack := drop 2 (stack vm)\<rparr>)"
      and "pushed_ok op (hd (stack vm''))"
      by (simp_all add: pushes_def)
    then show ?thesis
      unfolding pushed_ok_def by (intro exI [of _ "hd (stack vm'')"]) (auto split: if_splits)
  qed
  have ex: "\<exists>v. vm' = Push v (vm\<lparr>stack := drop 2 (stack vm)\<rparr>)
           \<and> (op \<in> set comparison_opcodes \<longrightarrow> v = vm_True \<or> v = vm_False)
           \<and> (object_Type v = BOOLEAN \<longrightarrow> v = vm_True \<or> v = vm_False)"
    if a: "Opcode_of D (bytecode vm ! nat ip) = op" "op \<in> set binary_opcodes"
      "exec D obj vm ip = Next vm' ip'"
  proof -
    from exec_binary [OF a(1,2)] a(3)
    have "of_status (executeBinaryOperation D op vm) (ip + 1) = Next vm' ip'" by simp
    then have "executeBinaryOperation D op vm = (None, vm')"
      by (cases "executeBinaryOperation D op vm") (auto simp: of_status_def split: option.splits)
    then show ?thesis by (rule bin)
  qed
  from native t f bin ex show ?thesis by blast
qed

theorem vm_booleans_are_canonical_witness:
  "Opcode_of sample (bytecode (machine [26, 27, 11] [] [Integer 2, Integer 1]) ! nat 0) = OpTrue
   \<and> exec sample NilRecord (machine [26, 27, 11] [] [Integer 2, Integer 1]) 0
       = Next (machine [26, 27, 11] [] [vm_True, Integer 2, Integer 1]) 1
   \<and> Opcode_of sample (bytecode (machine [26, 27, 11] [] [Integer 2, Integer 1]) ! nat 1) = OpFalse
   \<and> exec sample NilRecord (machine [26, 27, 11] [] [Integer 2, Integer 1]) 1
       = Next (machine [26, 27, 11] [] [vm_False, Integer 2, Integer 1]) 2
   \<and> OpLess \<in> set comparison_opcodes \<and> OpLess \<in> set binary_opcodes
   \<and> executeBinaryOperation sample OpLess (machine [26, 27, 11] [] [Integer 2, Integer 1])
       = (None, machine [26, 27, 11] [] [vm_True])
   \<and> exec sample NilRecord (machine [26, 27, 11] [] [Integer 2, Integer 1]) 2
       = Next (machine [26, 27, 11] [] [vm_True]) 3
   \<and> (\<exists>v. machine [26, 27, 11] [] [vm_True]
            = Push v ((machine [26, 27, 11] [] [Integer 2, Integer 1])
                        \<lparr>stack := drop 2 (stack (machine [26, 27, 11] [] [Integer 2, Integer 1 :: int Object]))\<rparr>)
          \<and> (v = vm_True \<or> v = vm_False))"
proof -
  let ?vm = "machine [26, 27, 11] [] [Integer 2, Integer 1] :: int VM"
  have h1: "Opcode_of sample (bytecode ?vm ! nat 0) = OpTrue"
    and h2: "Opcode_of sample (bytecode ?vm ! nat 1) = OpFalse"
    and h3: "OpLess \<in> set comparison_opcodes" "OpLess \<in> set binary_opcodes"
    and h4: "executeBinaryOperation sample OpLess ?vm = (None, machine [26, 27, 11] [] [vm_True])"
    and h5: "Opcode_of sample (bytecode ?vm ! nat 2) = OpLess"
    and h6: "exec sample NilRecord ?vm 2 = Next (machine [26, 27, 11] [] [vm_True]) 3"
    by (simp_all add: machine_def sample_eval comparison_opcodes_def exec_eval
          executeBinaryOperation_def evalIntegerInfixExpression_def nativeBoolToBooleanObject_def
          word_sless_alt)
  from vm_booleans_are_canonical [of True sample ?vm 0 NilRecord OpLess "machine [26, 27, 11] [] [vm_True]" 3]
    vm_booleans_are_canonical [of True sample ?vm 1 NilRecord OpLess "machine [26, 27, 11] [] [vm_True]" 3]
    vm_booleans_are_canonical [of True sample ?vm 2 NilRecord OpLess "machine [26, 27, 11] [] [vm_True]" 3]
    h1 h2 h3 h4 h5 h6
  show ?thesis
    by (simp add: machine_def Push_def)
qed


section \<open>Division\<close>

lemma div_integer:
  "stack vm = Integer ri # Integer li # s \<Longrightarrow>
   executeBinaryOperation D OpDiv vm =
     (if ri = 0 then (Some DivisionByZero, vm\<lparr>stack := s\<rparr>)
      else (None, vm\<lparr>stack := Integer (int64_quo li ri) # s\<rparr>))"
  by (simp add: binary_unfold evalIntegerInfixExpression_def Push_def)

lemma div_float:
  "stack vm = Float rf # Float lf # s \<Longrightarrow>
   executeBinaryOperation D OpDiv vm =
     (if feq D rf (float64_of D 0) then (Some DivisionByZero, vm\<lparr>stack := s\<rparr>)
      else (None, vm\<lparr>stack := Float (fdiv D lf rf) # s\<rparr>))"
  "stack vm = Integer ri # Float lf # s \<Longrightarrow>
   executeBinaryOperation D OpDiv vm =
     (if feq D (float64_of D ri) (float64_of D 0) then (Some DivisionByZero, vm\<lparr>stack := s\<rparr>)
      else (None, vm\<lparr>stack := Float (fdiv D lf (float64_of D ri)) # s\<rparr>))"
  "stack vm = Float rf # Integer li # s \<Longrightarrow>
   executeBinaryOperation D OpDiv vm =
     (if feq D rf (float64_of D 0) then (Some DivisionByZero, vm\<lparr>stack := s\<rparr>)
      else (None, vm\<lparr>stack := Float (fdiv D (float64_of D li) rf) # s\<rparr>))"
  by (simp_all add: binary_unfold evalFloatInfixExpression_def evalFloatIntegerInfixExpression_def
        evalIntegerFloatInfixExpression_def float_switch_def Push_def)

lemma run_loop_binary_error:
  assumes "ip < int (length (bytecode vm))" "Opcode_of D (bytecode vm ! nat ip) = op"
    "op \<in> set binary_opcodes" "executeBinaryOperation D op vm = (Some e, vm1)"
  shows "run_loop D obj vm ip = Some (Inl e, vm1)"
proof -
  from exec_binary [OF assms(2,3)] assms(4) have "exec D obj vm ip = Done (Inl e) vm1"
    by (simp add: of_status_def)
  with assms(1) show ?thesis by (rule run_loop_Done)
qed

lemma run_script_push:
  assumes "Opcode_of D b_push = OpPush" "Opcode_of D b_div = OpDiv" "Opcode_of D b_ret = OpReturn"
    and bc: "bytecode vm = return_quotient_push b_push b_div b_ret"
  shows "Run D obj vm = Some (Inl DivisionByZero, vm\<lparr>vm_fields := []\<rparr>)"
proof -
  let ?vm0 = "vm\<lparr>vm_fields := []\<rparr>"
  let ?vm1 = "Push (Integer 10) ?vm0"
  let ?vm2 = "Push (Integer 0) ?vm1"
  have b: "bytecode ?vm0 = [b_push, 0, 10, b_push, 0, 0, b_div, b_ret]"
    "bytecode ?vm1 = [b_push, 0, 10, b_push, 0, 0, b_div, b_ret]"
    "bytecode ?vm2 = [b_push, 0, 10, b_push, 0, 0, b_div, b_ret]"
    using bc by (simp_all add: return_quotient_push_def Push_def)
  have e0: "exec D obj ?vm0 0 = Next ?vm1 3"
    using assms(1) b(1) by (simp add: exec_def read_operand_def)
  have e1: "exec D obj ?vm1 3 = Next ?vm2 6"
    using assms(1) b(2) by (simp add: exec_def read_operand_def)
  have "stack ?vm2 = Integer 0 # Integer 10 # stack vm" by (simp add: Push_def)
  from div_integer [OF this, of D]
  have d: "executeBinaryOperation D OpDiv ?vm2 = (Some DivisionByZero, ?vm0)"
    by (simp add: Push_def)
  have "Run D obj vm = run_loop D obj ?vm0 0" using bc by (simp add: Run_def return_quotient_push_def)
  also have "\<dots> = run_loop D obj ?vm1 3" using b(1) e0 by (intro run_loop_Next) simp_all
  also have "\<dots> = run_loop D obj ?vm2 6" using b(2) e1 by (intro run_loop_Next) simp_all
  also have "\<dots> = Some (Inl DivisionByZero, ?vm0)"
    using b(3) assms(2) d by (intro run_loop_binary_error [where op = OpDiv]) (simp_all add: binary_opcodes_def)
  finally show ?thesis .
qed

lemma run_script_constant:
  assumes "Opcode_of D b_const = OpConstant" "Opcode_of D b_div = OpDiv" "Opcode_of D b_ret = OpReturn"
    and bc: "bytecode vm = return_quotient_constant b_const b_div b_ret"
    and cs: "constants vm = [Integer 10, Integer 0]"
  shows "Run D obj vm = Some (Inl DivisionByZero, vm\<lparr>vm_fields := []\<rparr>)"
proof -
  let ?vm0 = "vm\<lparr>vm_fields := []\<rparr>"
  let ?vm1 = "Push (Integer 10) ?vm0"
  let ?vm2 = "Push (Integer 0) ?vm1"
  have b: "bytecode ?vm0 = [b_const, 0, 0, b_const, 0, 1, b_div, b_ret]"
    "bytecode ?vm1 = [b_const, 0, 0, b_const, 0, 1, b_div, b_ret]"
    "bytecode ?vm2 = [b_const, 0, 0, b_const, 0, 1, b_div, b_ret]"
    using bc by (simp_all add: return_quotient_constant_def Push_def)
  have e0: "exec D obj ?vm0 0 = Next ?vm1 3"
    using assms(1) b(1) cs by (simp add: exec_def read_operand_def Push_def)
  have e1: "exec D obj ?vm1 3 = Next ?vm2 6"
    using assms(1) b(2) cs by (simp add: exec_def read_operand_def Push_def)
  have "stack ?vm2 = Integer 0 # Integer 10 # stack vm" by (simp add: Push_def)
  from div_integer [OF this, of D]
  have d: "executeBinaryOperation D OpDiv ?vm2 = (Some DivisionByZero, ?vm0)"
    by (simp add: Push_def)
  have "Run D obj vm = run_loop D obj ?vm0 0" using bc by (simp add: Run_def return_quotient_constant_def)
  also have "\<dots> = run_loop D obj ?vm1 3" using b(1) e0 by (intro run_loop_Next) simp_all
  also have "\<dots> = run_loop D obj ?vm2 6" using b(2) e1 by (intro run_loop_Next) simp_all
  also have "\<dots> = Some (Inl DivisionByZero, ?vm0)"
    using b(3) assms(2) d by (intro run_loop_binary_error [where op = OpDiv]) (simp_all add: binary_opcodes_def)
  finally show ?thesis .
qed


lemma int64_quo_examples:
  "int64_quo 7 2 = 3" "int64_quo (- 7) 2 = - 3" "int64_quo 7 (- 2) = - 3"
  "int64_quo (- 9223372036854775808) (- 1) = - 9223372036854775808"
  "int64_rem (- 7) 2 = - 1" "int64_rem 7 (- 2) = 1"
  by (simp_all add: int64_quo_def int64_rem_def signed_divide_int_def signed_modulo_int_def)

text \<open>
  Claim C4. Division by zero is an error that ends the run, and nothing is pushed: for two
  Integers when the right one is 0, and for two Floats, a Float and an Integer, an Integer
  and a Float when the right operand, as a float, equals 0. With a right operand that is not
  zero, two Integers give an Integer (the quotient truncated towards zero) and every pair
  with a Float gives a Float. The loop returns the error of a division by zero as the
  result of the run, and the bytecode of \<^verbatim>\<open>return 10 / 0;\<close> runs to that error, whether the
  literals are pushed by PUSH or by CONSTANT.
\<close>

theorem division_by_zero_aborts:
  "(stack vm = Integer 0 # Integer li # s \<longrightarrow>
      executeBinaryOperation D OpDiv vm = (Some DivisionByZero, vm\<lparr>stack := s\<rparr>))
   \<and> (stack vm = Float rf # Float lf # s \<and> feq D rf (float64_of D 0) \<longrightarrow>
      executeBinaryOperation D OpDiv vm = (Some DivisionByZero, vm\<lparr>stack := s\<rparr>))
   \<and> (stack vm = Integer ri # Float lf # s \<and> feq D (float64_of D ri) (float64_of D 0) \<longrightarrow>
      executeBinaryOperation D OpDiv vm = (Some DivisionByZero, vm\<lparr>stack := s\<rparr>))
   \<and> (stack vm = Float rf # Integer li # s \<and> feq D rf (float64_of D 0) \<longrightarrow>
      executeBinaryOperation D OpDiv vm = (Some DivisionByZero, vm\<lparr>stack := s\<rparr>))
   \<and> (stack vm = Integer ri # Integer li # s \<and> ri \<noteq> 0 \<longrightarrow>
      executeBinaryOperation D OpDiv vm = (None, vm\<lparr>stack := Integer (int64_quo li ri) # s\<rparr>))
   \<and> (stack vm = Float rf # Float lf # s \<and> \<not> feq D rf (float64_of D 0) \<longrightarrow>
      executeBinaryOperation D OpDiv vm = (None, vm\<lparr>stack := Float (fdiv D lf rf) # s\<rparr>))
   \<and> (stack vm = Integer ri # Float lf # s \<and> \<not> feq D (float64_of D ri) (float64_of D 0) \<longrightarrow>
      executeBinaryOperation D OpDiv vm
        = (None, vm\<lparr>stack := Float (fdiv D lf (float64_of D ri)) # s\<rparr>))
   \<and> (stack vm = Float rf # Integer li # s \<and> \<not> feq D rf (float64_of D 0) \<longrightarrow>
      executeBinaryOperation D OpDiv vm
        = (None, vm\<lparr>stack := Float (fdiv D (float64_of D li) rf) # s\<rparr>))
   \<and> (ip < int (length (bytecode vm)) \<and> Opcode_of D (bytecode vm ! nat ip) = OpDiv
        \<and> executeBinaryOperation D OpDiv vm = (Some DivisionByZero, vm') \<longrightarrow>
      run_loop D obj vm ip = Some (Inl DivisionByZero, vm'))
   \<and> (Opcode_of D b_push = OpPush \<and> Opcode_of D b_div = OpDiv \<and> Opcode_of D b_ret = OpReturn
        \<and> bytecode vm = return_quotient_push b_push b_div b_ret \<longrightarrow>
      Run D obj vm = Some (Inl DivisionByZero, vm\<lparr>vm_fields := []\<rparr>))
   \<and> (Opcode_of D b_const = OpConstant \<and> Opcode_of D b_div = OpDiv \<and> Opcode_of D b_ret = OpReturn
        \<and> bytecode vm = return_quotient_constant b_const b_div b_ret
        \<and> constants vm = [Integer 10, Integer 0] \<longrightarrow>
      Run D obj vm = Some (Inl DivisionByZero, vm\<lparr>vm_fields := []\<rparr>))"
proof (intro conjI impI; (elim conjE)?)
  assume "stack vm = Integer 0 # Integer li # s"
  then show "executeBinaryOperation D OpDiv vm = (Some DivisionByZero, vm\<lparr>stack := s\<rparr>)"
    by (simp add: div_integer)
next
  assume "stack vm = Float rf # Float lf # s" "feq D rf (float64_of D 0)"
  then show "executeBinaryOperation D OpDiv vm = (Some DivisionByZero, vm\<lparr>stack := s\<rparr>)"
    by (simp add: div_float)
next
  assume "stack vm = Integer ri # Float lf # s" "feq D (float64_of D ri) (float64_of D 0)"
  then show "executeBinaryOperation D OpDiv vm = (Some DivisionByZero, vm\<lparr>stack := s\<rparr>)"
    by (simp add: div_float)
next
  assume "stack vm = Float rf # Integer li # s" "feq D rf (float64_of D 0)"
  then show "executeBinaryOperation D OpDiv vm = (Some DivisionByZero, vm\<lparr>stack := s\<rparr>)"
    by (simp add: div_float)
next
  assume "stack vm = Integer ri # Integer li # s" "ri \<noteq> 0"
  then show "executeBinaryOperation D OpDiv vm
      = (None, vm\<lparr>stack := Integer (int64_quo li ri) # s\<rparr>)"
    by (simp add: div_integer)
next
  assume "stack vm = Float rf # Float lf # s" "\<not> feq D rf (float64_of D 0)"
  then show "executeBinaryOperation D OpDiv vm = (None, vm\<lparr>stack := Float (fdiv D lf rf) # s\<rparr>)"
    by (simp add: div_float)
next
  assume "stack vm = Integer ri # Float lf # s" "\<not> feq D (float64_of D ri) (float64_of D 0)"
  then show "executeBinaryOperation D OpDiv vm
      = (None, vm\<lparr>stack := Float (fdiv D lf (float64_of D ri)) # s\<rparr>)"
    by (simp add: div_float)
next
  assume "stack vm = Float rf # Integer li # s" "\<not> feq D rf (float64_of D 0)"
  then show "executeBinaryOperation D OpDiv vm
      = (None, vm\<lparr>stack := Float (fdiv D (float64_of D li) rf) # s\<rparr>)"
    by (simp add: div_float)
next
  assume "ip < int (length (bytecode vm))" "Opcode_of D (bytecode vm ! nat ip) = OpDiv"
    "executeBinaryOperation D OpDiv vm = (Some DivisionByZero, vm')"
  then show "run_loop D obj vm ip = Some (Inl DivisionByZero, vm')"
    by (intro run_loop_binary_error [where op = OpDiv]) (simp_all add: binary_opcodes_def)
next
  assume "Opcode_of D b_push = OpPush" "Opcode_of D b_div = OpDiv" "Opcode_of D b_ret = OpReturn"
    "bytecode vm = return_quotient_push b_push b_div b_ret"
  then show "Run D obj vm = Some (Inl DivisionByZero, vm\<lparr>vm_fields := []\<rparr>)"
    by (rule run_script_push)
next
  assume "Opcode_of D b_const = OpConstant" "Opcode_of D b_div = OpDiv" "Opcode_of D b_ret = OpReturn"
    "bytecode vm = return_quotient_constant b_const b_div b_ret"
    "constants vm = [Integer 10, Integer 0]"
  then show "Run D obj vm = Some (Inl DivisionByZero, vm\<lparr>vm_fields := []\<rparr>)"
    by (rule run_script_constant)
qed

theorem division_by_zero_aborts_witness:
  "executeBinaryOperation sample OpDiv (machine [8] [] [Integer 0, Integer 10])
     = (Some DivisionByZero, machine [8] [] [])
   \<and> executeBinaryOperation sample OpDiv (machine [8] [] [Float 0, Float 10])
     = (Some DivisionByZero, machine [8] [] [])
   \<and> executeBinaryOperation sample OpDiv (machine [8] [] [Integer 0, Float 10])
     = (Some DivisionByZero, machine [8] [] [])
   \<and> executeBinaryOperation sample OpDiv (machine [8] [] [Float 0, Integer 10])
     = (Some DivisionByZero, machine [8] [] [])
   \<and> executeBinaryOperation sample OpDiv (machine [8] [] [Integer 2, Integer 10])
     = (None, machine [8] [] [Integer 5])
   \<and> executeBinaryOperation sample OpDiv (machine [8] [] [Float 2, Float 10])
     = (None, machine [8] [] [Float 5])
   \<and> executeBinaryOperation sample OpDiv (machine [8] [] [Integer 2, Float 10])
     = (None, machine [8] [] [Float 5])
   \<and> executeBinaryOperation sample OpDiv (machine [8] [] [Float 2, Integer 10])
     = (None, machine [8] [] [Float 5])
   \<and> run_loop sample NilRecord (machine [8] [] [Integer 0, Integer 10]) 0
     = Some (Inl DivisionByZero, machine [8] [] [])
   \<and> Run sample NilRecord (machine (return_quotient_push 1 8 28) [] [])
     = Some (Inl DivisionByZero, machine (return_quotient_push 1 8 28) [] [])
   \<and> Run sample NilRecord (machine (return_quotient_constant 2 8 28) [Integer 10, Integer 0] [])
     = Some (Inl DivisionByZero, machine (return_quotient_constant 2 8 28) [Integer 10, Integer 0] [])"
proof -
  have ops: "Opcode_of sample 1 = OpPush" "Opcode_of sample 2 = OpConstant"
    "Opcode_of sample 8 = OpDiv" "Opcode_of sample 28 = OpReturn"
    by (simp_all add: sample_eval)
  have fl: "feq sample = (=)" "float64_of sample = sint" "fdiv sample 10 2 = 5"
    "int64_quo 10 2 = 5"
    by (simp_all add: sample_def int64_quo_def signed_divide_int_def)
  note T = division_by_zero_aborts [where D = sample and obj = NilRecord and ip = 0
      and b_push = 1 and b_const = 2 and b_div = 8 and b_ret = 28 and s = "[]"]
  have w1: "executeBinaryOperation sample OpDiv (machine [8] [] [Integer 0, Integer 10])
     = (Some DivisionByZero, machine [8] [] [])"
    using T [where vm = "machine [8] [] [Integer 0, Integer 10]" and li = 10]
    by (simp add: machine_def)
  have w2: "executeBinaryOperation sample OpDiv (machine [8] [] [Float 0, Float 10])
     = (Some DivisionByZero, machine [8] [] [])"
    using T [where vm = "machine [8] [] [Float 0, Float 10]" and rf = 0 and lf = 10]
    by (simp add: machine_def fl)
  have w3: "executeBinaryOperation sample OpDiv (machine [8] [] [Integer 0, Float 10])
     = (Some DivisionByZero, machine [8] [] [])"
    using T [where vm = "machine [8] [] [Integer 0, Float 10]" and ri = 0 and lf = 10]
    by (simp add: machine_def fl)
  have w4: "executeBinaryOperation sample OpDiv (machine [8] [] [Float 0, Integer 10])
     = (Some DivisionByZero, machine [8] [] [])"
    using T [where vm = "machine [8] [] [Float 0, Integer 10]" and rf = 0 and li = 10]
    by (simp add: machine_def fl)
  have w5: "executeBinaryOperation sample OpDiv (machine [8] [] [Integer 2, Integer 10])
     = (None, machine [8] [] [Integer 5])"
    using T [where vm = "machine [8] [] [Integer 2, Integer 10]" and ri = 2 and li = 10]
    by (simp add: machine_def fl)
  have w6: "executeBinaryOperation sample OpDiv (machine [8] [] [Float 2, Float 10])
     = (None, machine [8] [] [Float 5])"
    using T [where vm = "machine [8] [] [Float 2, Float 10]" and rf = 2 and lf = 10]
    by (simp add: machine_def fl)
  have w7: "executeBinaryOperation sample OpDiv (machine [8] [] [Integer 2, Float 10])
     = (None, machine [8] [] [Float 5])"
    using T [where vm = "machine [8] [] [Integer 2, Float 10]" and ri = 2 and lf = 10]
    by (simp add: machine_def fl)
  have w8: "executeBinaryOperation sample OpDiv (machine [8] [] [Float 2, Integer 10])
     = (None, machine [8] [] [Float 5])"
    using T [where vm = "machine [8] [] [Float 2, Integer 10]" and rf = 2 and li = 10]
    by (simp add: machine_def fl)
  have w9: "run_loop sample NilRecord (machine [8] [] [Integer 0, Integer 10]) 0
     = Some (Inl DivisionByZero, machine [8] [] [])"
    using T [where vm = "machine [8] [] [Integer 0, Integer 10]" and vm' = "machine [8] [] []"] w1
    by (simp add: machine_def ops)
  have w10: "Run sample NilRecord (machine (return_quotient_push 1 8 28) [] [])
     = Some (Inl DivisionByZero, machine (return_quotient_push 1 8 28) [] [])"
    using T [where vm = "machine (return_quotient_push 1 8 28) [] []"]
    by (simp add: machine_def ops)
  have w11: "Run sample NilRecord (machine (return_quotient_constant 2 8 28) [Integer 10, Integer 0] [])
     = Some (Inl DivisionByZero, machine (return_quotient_constant 2 8 28) [Integer 10, Integer 0] [])"
    using T [where vm = "machine (return_quotient_constant 2 8 28) [Integer 10, Integer 0] []"]
    by (simp add: machine_def ops)
  from w1 w2 w3 w4 w5 w6 w7 w8 w9 w10 w11 show ?thesis by blast
qed

section \<open>The ends of a run\<close>

lemma exec_value_only_by_return:
  "exec D obj vm ip = Done (Inr v) vm' \<Longrightarrow>
   Opcode_of D (bytecode vm ! nat ip) = OpReturn \<and> stack vm = v # stack vm'"
  unfolding exec_def Let_def
  by (auto simp: of_status_def Pop_def split: if_splits option.splits sum.splits prod.splits list.splits)

lemma exec_return:
  "Opcode_of D (bytecode vm ! nat ip) = OpReturn \<Longrightarrow>
   exec D obj vm ip =
     (case stack vm of [] \<Rightarrow> Done (Inl StackUnderflow) vm
      | v # s \<Rightarrow> Done (Inr v) (vm\<lparr>stack := s\<rparr>))"
  by (simp add: exec_def binary_opcodes_def Pop_def split: list.splits)

lemma run_loop_step_value:
  assumes IH: "\<And>D obj vm ip y. f D obj vm ip = Some y \<Longrightarrow>
      \<forall>v vm'. y = (Inr v, vm') \<longrightarrow>
        (\<exists>vm0 ip0. ip0 < int (length (bytecode vm0)) \<and> exec D obj vm0 ip0 = Done (Inr v) vm')"
    and eq: "(if ip < int (length (bytecode vm))
         then (case exec D obj vm ip of
                 Done r vm1 \<Rightarrow> Some (r, vm1)
               | Next vm1 ip1 \<Rightarrow> f D obj vm1 ip1)
         else Some (Inl MissingReturn, vm)) = Some y"
  shows "\<forall>v vm'. y = (Inr v, vm') \<longrightarrow>
      (\<exists>vm0 ip0. ip0 < int (length (bytecode vm0)) \<and> exec D obj vm0 ip0 = Done (Inr v) vm')"
proof (cases "ip < int (length (bytecode vm))")
  case False
  with eq show ?thesis by auto
next
  case True
  show ?thesis
  proof (cases "exec D obj vm ip")
    case (Done r vm1)
    with True eq show ?thesis by auto
  next
    case (Next vm1 ip1)
    with True eq have "f D obj vm1 ip1 = Some y" by simp
    then show ?thesis by (rule IH)
  qed
qed

lemma run_loop_value_by_return:
  assumes "run_loop D obj vm ip = Some y"
  shows "\<forall>v vm'. y = (Inr v, vm') \<longrightarrow>
     (\<exists>vm0 ip0. ip0 < int (length (bytecode vm0)) \<and> exec D obj vm0 ip0 = Done (Inr v) vm')"
  by (rule run_loop.raw_induct
        [where P = "\<lambda>D obj vm ip y. \<forall>v vm'. y = (Inr v, vm') \<longrightarrow>
           (\<exists>vm0 ip0. ip0 < int (length (bytecode vm0)) \<and> exec D obj vm0 ip0 = Done (Inr v) vm')",
         OF _ assms])
     (rule run_loop_step_value)

text \<open>
  Claim C8. \<^verbatim>\<open>Run\<close> on an empty bytecode fails with the error of the empty program, before
  anything is executed. At the opcode RETURN the step pops the stack and the run returns the
  popped value. When the instruction pointer is at or beyond the end of the bytecode the run
  fails with the error of the missing return. A value is returned only by RETURN: a step
  that ends the run with a value is at a RETURN opcode with that value on top of the stack,
  and a run that returns a value has made such a step.
\<close>

theorem run_ends:
  "(bytecode vm = [] \<longrightarrow> Run D obj vm = Some (Inl EmptyProgram, vm))
   \<and> (ip < int (length (bytecode vm)) \<and> Opcode_of D (bytecode vm ! nat ip) = OpReturn
        \<and> stack vm = v # s \<longrightarrow>
      exec D obj vm ip = Done (Inr v) (vm\<lparr>stack := s\<rparr>)
      \<and> run_loop D obj vm ip = Some (Inr v, vm\<lparr>stack := s\<rparr>))
   \<and> (\<not> ip < int (length (bytecode vm)) \<longrightarrow>
      run_loop D obj vm ip = Some (Inl MissingReturn, vm))
   \<and> (exec D obj vm ip = Done (Inr v) vm' \<longrightarrow>
      Opcode_of D (bytecode vm ! nat ip) = OpReturn \<and> stack vm = v # stack vm')
   \<and> (Run D obj vm = Some (Inr v, vm') \<longrightarrow>
      (\<exists>vm0 ip0. ip0 < int (length (bytecode vm0))
         \<and> Opcode_of D (bytecode vm0 ! nat ip0) = OpReturn
         \<and> stack vm0 = v # stack vm'
         \<and> exec D obj vm0 ip0 = Done (Inr v) vm'))"
proof (intro conjI impI; (elim conjE)?)
  assume "bytecode vm = []"
  then show "Run D obj vm = Some (Inl EmptyProgram, vm)" by (simp add: Run_def)
next
  assume a: "ip < int (length (bytecode vm))" "Opcode_of D (bytecode vm ! nat ip) = OpReturn"
    "stack vm = v # s"
  then show e: "exec D obj vm ip = Done (Inr v) (vm\<lparr>stack := s\<rparr>)"
    by (simp add: exec_return)
  from a(1) e show "run_loop D obj vm ip = Some (Inr v, vm\<lparr>stack := s\<rparr>)"
    by (rule run_loop_Done)
next
  assume "\<not> ip < int (length (bytecode vm))"
  then show "run_loop D obj vm ip = Some (Inl MissingReturn, vm)" by (rule run_loop_end)
next
  assume "exec D obj vm ip = Done (Inr v) vm'"
  from exec_value_only_by_return [OF this]
  show "Opcode_of D (bytecode vm ! nat ip) = OpReturn" "stack vm = v # stack vm'" by simp_all
next
  assume r: "Run D obj vm = Some (Inr v, vm')"
  then have "run_loop D obj (vm\<lparr>vm_fields := []\<rparr>) 0 = Some (Inr v, vm')"
    by (simp add: Run_def split: if_splits)
  from run_loop_value_by_return [OF this]
  obtain vm0 ip0 where "ip0 < int (length (bytecode vm0))" "exec D obj vm0 ip0 = Done (Inr v) vm'"
    by blast
  with exec_value_only_by_return [OF this(2)]
  show "\<exists>vm0 ip0. ip0 < int (length (bytecode vm0))
         \<and> Opcode_of D (bytecode vm0 ! nat ip0) = OpReturn
         \<and> stack vm0 = v # stack vm'
         \<and> exec D obj vm0 ip0 = Done (Inr v) vm'" by blast
qed

theorem run_ends_witness:
  "Run sample NilRecord (machine [] [] []) = Some (Inl EmptyProgram, machine [] [] [])
   \<and> exec sample NilRecord (machine [26, 28] [] [vm_True]) 1
       = Done (Inr vm_True) (machine [26, 28] [] [])
   \<and> run_loop sample NilRecord (machine [26, 28] [] [vm_True]) 1
       = Some (Inr vm_True, machine [26, 28] [] [])
   \<and> run_loop sample NilRecord (machine [26] [] [vm_True]) 1
       = Some (Inl MissingReturn, machine [26] [] [vm_True])
   \<and> Run sample NilRecord (machine [26] [] []) = Some (Inl MissingReturn, machine [26] [] [vm_True])
   \<and> Run sample NilRecord (machine [26, 28] [] []) = Some (Inr vm_True, machine [26, 28] [] [])
   \<and> (\<exists>vm0 ip0. ip0 < int (length (bytecode vm0))
         \<and> Opcode_of sample (bytecode vm0 ! nat ip0) = OpReturn
         \<and> stack vm0 = vm_True # stack (machine [26, 28] [] [] :: int VM)
         \<and> exec sample NilRecord vm0 ip0 = Done (Inr vm_True) (machine [26, 28] [] []))"
proof -
  note T = run_ends [where D = sample and obj = NilRecord]
  have w1: "Run sample NilRecord (machine [] [] []) = Some (Inl EmptyProgram, machine [] [] [])"
    using T [where vm = "machine [] [] []"] by (simp add: machine_def)
  have w2: "exec sample NilRecord (machine [26, 28] [] [vm_True]) 1
       = Done (Inr vm_True) (machine [26, 28] [] [])
     \<and> run_loop sample NilRecord (machine [26, 28] [] [vm_True]) 1
       = Some (Inr vm_True, machine [26, 28] [] [])"
    using T [where vm = "machine [26, 28] [] [vm_True]" and ip = 1 and v = vm_True and s = "[]"]
    by (simp add: machine_def sample_eval)
  have w3: "run_loop sample NilRecord (machine [26] [] [vm_True]) 1
       = Some (Inl MissingReturn, machine [26] [] [vm_True])"
    using T [where vm = "machine [26] [] [vm_True]" and ip = 1]
    by (simp add: machine_def)
  have w4: "Run sample NilRecord (machine [26] [] []) = Some (Inl MissingReturn, machine [26] [] [vm_True])"
    by (simp add: Run_def machine_def run_loop.simps exec_eval sample_eval)
  have w5: "Run sample NilRecord (machine [26, 28] [] []) = Some (Inr vm_True, machine [26, 28] [] [])"
    by (simp add: Run_def machine_def run_loop.simps exec_eval sample_eval)
  have w6: "\<exists>vm0 ip0. ip0 < int (length (bytecode vm0))
         \<and> Opcode_of sample (bytecode vm0 ! nat ip0) = OpReturn
         \<and> stack vm0 = vm_True # stack (machine [26, 28] [] [] :: int VM)
         \<and> exec sample NilRecord vm0 ip0 = Done (Inr vm_True) (machine [26, 28] [] [])"
    using T [where vm = "machine [26, 28] [] []" and v = vm_True and vm' = "machine [26, 28] [] []"] w5
    by simp
  from w1 w2 w3 w4 w5 w6 show ?thesis by blast
qed

section \<open>Boolean operands\<close>

lemma binary_untyped:
  assumes st: "stack vm = right # left # s" and nt: "\<not> typed_pair left right"
    and op: "op \<noteq> OpAnd" "op \<noteq> OpOr"
  shows "executeBinaryOperation D op vm =
     (if object_Type left = BOOLEAN \<and> object_Type right = BOOLEAN
      then evalBooleanInfixExpression D op left right (vm\<lparr>stack := s\<rparr>)
      else if object_Type left \<noteq> object_Type right then (Some TypeMismatch, vm\<lparr>stack := s\<rparr>)
      else (Some UnknownOperator, vm\<lparr>stack := s\<rparr>))"
proof -
  from nt have n: "\<not> (object_Type left = INTEGER \<and> object_Type right = INTEGER)"
    "\<not> (object_Type left = FLOAT \<and> object_Type right = FLOAT)"
    "\<not> (object_Type left = FLOAT \<and> object_Type right = INTEGER)"
    "\<not> (object_Type left = INTEGER \<and> object_Type right = FLOAT)"
    "\<not> (object_Type left = STRING \<and> object_Type right = STRING)"
    by (auto simp: typed_pair_def)
  show ?thesis unfolding binary_unfold [OF st] Let_def
    by (simp only: n op if_False)
qed

lemma Inspect_Boolean:
  "object_Type v = BOOLEAN \<Longrightarrow> Inspect D v = ''true'' \<or> Inspect D v = ''false''"
  by (cases v) simp_all

lemma string_order_false_true: "(''false'' :: string) < ''true''"
  by simp

text \<open>
  Claim C7, as amended. For two Boolean operands every binary operator other than AND and OR
  is evaluated by \<^verbatim>\<open>evalStringInfixExpression\<close> on the \<^verbatim>\<open>Inspect\<close> forms of the operands,
  which are "true" and "false": the equalities and the orderings compare these strings
  lexicographically, and "false" is below "true". The result is a function of the operator
  and the operands. For a pair of types that neither a typed arm nor the arm of the
  Booleans takes, an operator other than AND and OR is not evaluated on the \<^verbatim>\<open>Inspect\<close>
  forms: it fails, with a type mismatch when the two types differ and with an unknown
  operator when they are equal.
\<close>

theorem boolean_operands_compare_as_strings:
  "(stack vm = right # left # s \<and> object_Type left = BOOLEAN \<and> object_Type right = BOOLEAN
      \<and> op \<noteq> OpAnd \<and> op \<noteq> OpOr \<longrightarrow>
    executeBinaryOperation D op vm
      = evalStringInfixExpression op (String (Inspect D left)) (String (Inspect D right))
          (vm\<lparr>stack := s\<rparr>))
   \<and> (object_Type left = BOOLEAN \<longrightarrow> Inspect D left = ''true'' \<or> Inspect D left = ''false'')
   \<and> Inspect D (vm_True :: 'f Object) = ''true'' \<and> Inspect D (vm_False :: 'f Object) = ''false''
   \<and> Inspect D (Boolean True :: 'f Object) = ''true'' \<and> Inspect D (Boolean False :: 'f Object) = ''false''
   \<and> evalStringInfixExpression OpEqual (String a) (String b) vm
       = (None, Push (nativeBoolToBooleanObject (a = b)) vm)
   \<and> evalStringInfixExpression OpNotEqual (String a) (String b) vm
       = (None, Push (nativeBoolToBooleanObject (a \<noteq> b)) vm)
   \<and> evalStringInfixExpression OpLess (String a) (String b) vm
       = (None, Push (nativeBoolToBooleanObject (a < b)) vm)
   \<and> evalStringInfixExpression OpLessEqual (String a) (String b) vm
       = (None, Push (nativeBoolToBooleanObject (a \<le> b)) vm)
   \<and> evalStringInfixExpression OpGreater (String a) (String b) vm
       = (None, Push (nativeBoolToBooleanObject (b < a)) vm)
   \<and> evalStringInfixExpression OpGreaterEqual (String a) (String b) vm
       = (None, Push (nativeBoolToBooleanObject (b \<le> a)) vm)
   \<and> (''false'' :: string) < ''true''
   \<and> (stack vm = right # left # s \<and> \<not> typed_pair left right
        \<and> \<not> (object_Type left = BOOLEAN \<and> object_Type right = BOOLEAN)
        \<and> op \<noteq> OpAnd \<and> op \<noteq> OpOr \<longrightarrow>
      executeBinaryOperation D op vm
        = (Some (if object_Type left \<noteq> object_Type right then TypeMismatch else UnknownOperator),
           vm\<lparr>stack := s\<rparr>))"
proof (intro conjI impI; (elim conjE)?)
  assume a: "stack vm = right # left # s" "object_Type left = BOOLEAN"
    "object_Type right = BOOLEAN" "op \<noteq> OpAnd" "op \<noteq> OpOr"
  then have "\<not> typed_pair left right" by (simp add: typed_pair_def)
  from binary_untyped [OF a(1) this a(4,5)] a(2,3)
  show "executeBinaryOperation D op vm
      = evalStringInfixExpression op (String (Inspect D left)) (String (Inspect D right))
          (vm\<lparr>stack := s\<rparr>)"
    by (simp add: evalBooleanInfixExpression_def)
next
  assume "object_Type left = BOOLEAN"
  then show "Inspect D left = ''true'' \<or> Inspect D left = ''false''" by (rule Inspect_Boolean)
next
  assume a: "stack vm = right # left # s" "\<not> typed_pair left right"
    "\<not> (object_Type left = BOOLEAN \<and> object_Type right = BOOLEAN)" "op \<noteq> OpAnd" "op \<noteq> OpOr"
  show "executeBinaryOperation D op vm
        = (Some (if object_Type left \<noteq> object_Type right then TypeMismatch else UnknownOperator),
           vm\<lparr>stack := s\<rparr>)"
    unfolding binary_untyped [OF a(1,2,4,5)] using a(3) by auto
qed (simp_all add: evalStringInfixExpression_def)

theorem boolean_operands_compare_as_strings_witness:
  "executeBinaryOperation sample OpLess (machine [] [] [vm_True, vm_False])
     = (None, machine [] [] [vm_True])
   \<and> executeBinaryOperation sample OpEqual (machine [] [] [Boolean False, vm_False])
     = (None, machine [] [] [vm_True])
   \<and> Inspect sample (Boolean False) = ''false''
   \<and> executeBinaryOperation sample OpLess (machine [] [] [vm_Null, vm_Null])
     = (Some UnknownOperator, machine [] [] [])
   \<and> executeBinaryOperation sample OpLess (machine [] [] [Integer 1, vm_True])
     = (Some TypeMismatch, machine [] [] [])"
proof -
  note T = boolean_operands_compare_as_strings [where D = sample and s = "[]"]
  have w1: "executeBinaryOperation sample OpLess (machine [] [] [vm_True, vm_False])
     = (None, machine [] [] [vm_True])"
    using T [where vm = "machine [] [] [vm_True, vm_False]" and right = vm_True
        and left = vm_False and op = OpLess]
      T [where vm = "machine [] [] []" and a = "''false''" and b = "''true''"]
    by (simp add: machine_def Push_def nativeBoolToBooleanObject_def)
  have w2: "executeBinaryOperation sample OpEqual (machine [] [] [Boolean False, vm_False])
     = (None, machine [] [] [vm_True])"
    using T [where vm = "machine [] [] [Boolean False, vm_False]" and right = "Boolean False"
        and left = vm_False and op = OpEqual]
      T [where vm = "machine [] [] []" and a = "''false''" and b = "''false''"]
    by (simp add: machine_def Push_def nativeBoolToBooleanObject_def)
  have w3: "Inspect sample (Boolean False) = ''false''"
    using T [where left = "Boolean False"] by simp
  have w4: "executeBinaryOperation sample OpLess (machine [] [] [vm_Null, vm_Null])
     = (Some UnknownOperator, machine [] [] [])"
    using T [where vm = "machine [] [] [vm_Null, vm_Null]" and right = vm_Null
        and left = vm_Null and op = OpLess]
    by (simp add: machine_def typed_pair_def)
  have w5: "executeBinaryOperation sample OpLess (machine [] [] [Integer 1, vm_True])
     = (Some TypeMismatch, machine [] [] [])"
    using T [where vm = "machine [] [] [Integer 1, vm_True]" and right = "Integer 1"
        and left = vm_True and op = OpLess]
    by (simp add: machine_def typed_pair_def)
  from w1 w2 w3 w4 w5 show ?thesis by blast
qed

text \<open>
  Claim C7 as stated fails in its last sentence: for two Arrays, or two Nulls, the equality
  is an unknown operator, where the comparison of the \<^verbatim>\<open>Inspect\<close> forms would push true;
  for a Null and a Boolean it is a type mismatch. And for two Booleans AND is not the
  string operation (which is an unknown operator) but the conjunction of the truth values.
\<close>

theorem string_fallback_not_for_other_pairs:
  "executeBinaryOperation sample OpEqual (machine [] [] [Array [Integer 1], Array [Integer 1]])
     = (Some UnknownOperator, machine [] [] [])
   \<and> evalStringInfixExpression OpEqual
        (String (Inspect sample (Array [Integer 1]))) (String (Inspect sample (Array [Integer 1])))
        (machine [] [] [])
     = (None, machine [] [] [vm_True])
   \<and> executeBinaryOperation sample OpEqual (machine [] [] [vm_Null, vm_Null])
     = (Some UnknownOperator, machine [] [] [])
   \<and> executeBinaryOperation sample OpEqual (machine [] [] [vm_Null, vm_False])
     = (Some TypeMismatch, machine [] [] [])
   \<and> executeBinaryOperation sample OpAnd (machine [] [] [vm_False, vm_True])
     = (None, machine [] [] [vm_False])
   \<and> evalStringInfixExpression OpAnd (String ''true'') (String ''false'') (machine [] [] [])
     = (Some UnknownOperator, machine [] [] [])"
  by (simp add: machine_def executeBinaryOperation_def evalStringInfixExpression_def Pop_def
        Push_def nativeBoolToBooleanObject_def)

section \<open>Name lookup\<close>















section \<open>The built-in match\<close>

lemma match_lines_iff:
  "match_lines D r ls = Boolean (\<exists>s \<in> set ls. MatchString D r (TrimSpace D s))"
  by (induction ls) (simp_all add: Let_def)

lemma Split_not_Nil: "Split s sep \<noteq> []"
  by (induction s) (auto split: list.splits)

lemma Join_Cons: "ls \<noteq> [] \<Longrightarrow> Join (l # ls) sep = l @ sep @ Join ls sep"
  by (cases ls) simp_all

lemma Join_Split: "Join (Split s sep) [sep] = s"
proof (induction s)
  case Nil
  show ?case by simp
next
  case (Cons c s)
  show ?case
  proof (cases "c = sep")
    case True
    with Cons show ?thesis by (simp add: Join_Cons Split_not_Nil)
  next
    case False
    obtain l ls where sp: "Split s sep = l # ls"
      using Split_not_Nil [of s sep] by (cases "Split s sep") auto
    with Cons have "Join (l # ls) [sep] = s" by simp
    then have "Join ((c # l) # ls) [sep] = c # s" by (cases ls) auto
    with False sp show ?thesis by simp
  qed
qed

lemma Split_no_sep: "l \<in> set (Split s sep) \<Longrightarrow> sep \<notin> set l"
proof (induction s arbitrary: l)
  case Nil
  then show ?case by simp
next
  case (Cons c s)
  then show ?case by (cases "Split s sep") (auto split: if_splits)
qed

text \<open>
  Claim C6. With a cache that holds only results of \<^verbatim>\<open>regexp.Compile\<close> (it is empty at the
  start and \<^verbatim>\<open>fnMatch\<close> keeps it so), \<^verbatim>\<open>match(h, p)\<close> is a Boolean: false when the \<^verbatim>\<open>Inspect\<close>
  form of \<open>p\<close> does not compile, and otherwise true exactly when one of the lines of the
  \<^verbatim>\<open>Inspect\<close> form of \<open>h\<close>, split at the newline characters and trimmed by
  \<^verbatim>\<open>strings.TrimSpace\<close>, matches the compiled expression. The lines of \<open>Split\<close> contain no
  separator, and joined by the separator they give the text back.
\<close>

theorem match_any_line:
  "((\<forall>k r. regCache k = Some r \<longrightarrow> Compile D k = Some r) \<longrightarrow>
      fst (fnMatch D regCache [h, p]) =
        Boolean (case Compile D (Inspect D p) of
                   None \<Rightarrow> False
                 | Some r \<Rightarrow> \<exists>line \<in> set (Split (Inspect D h) (CHR 0x0A)).
                               MatchString D r (TrimSpace D line)))
   \<and> ((\<forall>k r. regCache k = Some r \<longrightarrow> Compile D k = Some r) \<longrightarrow>
      (\<forall>k r. snd (fnMatch D regCache [h, p]) k = Some r \<longrightarrow> Compile D k = Some r))
   \<and> Join (Split s sep) [sep] = s
   \<and> (\<forall>line \<in> set (Split s sep). sep \<notin> set line)"
proof (intro conjI impI)
  assume c: "\<forall>k r. regCache k = Some r \<longrightarrow> Compile D k = Some r"
  show "fst (fnMatch D regCache [h, p]) =
        Boolean (case Compile D (Inspect D p) of
                   None \<Rightarrow> False
                 | Some r \<Rightarrow> \<exists>line \<in> set (Split (Inspect D h) (CHR 0x0A)).
                               MatchString D r (TrimSpace D line))"
  proof (cases "regCache (Inspect D p)")
    case None
    then show ?thesis
      by (simp add: fnMatch_def match_lines_iff split: option.splits)
  next
    case (Some r)
    with c have "Compile D (Inspect D p) = Some r" by simp
    with Some show ?thesis by (simp add: fnMatch_def match_lines_iff)
  qed
  show "\<forall>k r. snd (fnMatch D regCache [h, p]) k = Some r \<longrightarrow> Compile D k = Some r"
  proof (cases "regCache (Inspect D p)")
    case (Some r)
    then have "snd (fnMatch D regCache [h, p]) = regCache" by (simp add: fnMatch_def)
    with c show ?thesis by simp
  next
    case None
    show ?thesis
    proof (cases "Compile D (Inspect D p)")
      case n: None
      with None have "snd (fnMatch D regCache [h, p]) = regCache" by (simp add: fnMatch_def)
      with c show ?thesis by simp
    next
      case s: (Some r)
      with None have "snd (fnMatch D regCache [h, p]) = regCache(Inspect D p \<mapsto> r)"
        by (simp add: fnMatch_def)
      with c s show ?thesis by simp
    qed
  qed
next
  show "Join (Split s sep) [sep] = s" by (rule Join_Split)
  show "\<forall>line \<in> set (Split s sep). sep \<notin> set line" by (auto dest: Split_no_sep)
qed

theorem match_any_line_witness:
  "fnMatch sample Map.empty [String [CHR ''a'', CHR ''b'', CHR 0x0A, CHR '' '', CHR ''c'', CHR ''d'', CHR '' ''], String ''cd'']
     = (Boolean True :: int Object, [''cd'' \<mapsto> ''cd''])
   \<and> Split [CHR ''a'', CHR ''b'', CHR 0x0A, CHR '' '', CHR ''c'', CHR ''d'', CHR '' ''] (CHR 0x0A) = [''ab'', '' cd '']
   \<and> fst (fnMatch sample Map.empty [String ''xyz'', String ''cd'']) = (Boolean False :: int Object)
   \<and> fst (fnMatch sample Map.empty [String ''(a'', String ''(a'']) = (Boolean False :: int Object)
   \<and> fst (fnMatch sample [''cd'' \<mapsto> ''cd''] [String ''cdcd'', String ''cd'']) = (Boolean True :: int Object)"
proof -
  note T = match_any_line [where D = sample]
  have e: "\<forall>k r. (Map.empty :: string \<rightharpoonup> string) k = Some r \<longrightarrow> Compile sample k = Some r"
    by simp
  have e2: "\<forall>k r. [''cd'' \<mapsto> ''cd''] k = Some r \<longrightarrow> Compile sample k = Some r"
  proof (intro allI impI)
    fix k r :: string
    assume "[''cd'' \<mapsto> ''cd''] k = Some r"
    then have "k = ''cd'' \<and> r = ''cd''" by (cases "k = ''cd''") simp_all
    then show "Compile sample k = Some r" by (simp add: sample_def)
  qed
  have sp: "Split [CHR ''a'', CHR ''b'', CHR 0x0A, CHR '' '', CHR ''c'', CHR ''d'', CHR '' ''] (CHR 0x0A) = [''ab'', '' cd '']"
    by simp
  have w1: "fst (fnMatch sample Map.empty [String [CHR ''a'', CHR ''b'', CHR 0x0A, CHR '' '', CHR ''c'', CHR ''d'', CHR '' ''], String ''cd''])
     = (Boolean True :: int Object)"
    using T [where regCache = Map.empty and h = "String [CHR ''a'', CHR ''b'', CHR 0x0A, CHR '' '', CHR ''c'', CHR ''d'', CHR '' '']"
        and p = "String ''cd''", THEN conjunct1, THEN mp, OF e]
    by (simp add: sample_def ascii_space_def)
  have w1': "snd (fnMatch sample Map.empty [String [CHR ''a'', CHR ''b'', CHR 0x0A, CHR '' '', CHR ''c'', CHR ''d'', CHR '' ''], String ''cd'' :: int Object])
     = [''cd'' \<mapsto> ''cd'']"
    by (simp add: fnMatch_def sample_def Let_def)
  have w2: "fst (fnMatch sample Map.empty [String ''xyz'', String ''cd'']) = (Boolean False :: int Object)"
    using T [where regCache = Map.empty and h = "String ''xyz''" and p = "String ''cd''", THEN conjunct1, THEN mp, OF e]
    by (simp add: sample_def ascii_space_def)
  have w3: "fst (fnMatch sample Map.empty [String ''(a'', String ''(a'']) = (Boolean False :: int Object)"
    using T [where regCache = Map.empty and h = "String ''(a''" and p = "String ''(a''", THEN conjunct1, THEN mp, OF e]
    by (simp add: sample_def)
  have w4: "fst (fnMatch sample [''cd'' \<mapsto> ''cd''] [String ''cdcd'', String ''cd'']) = (Boolean True :: int Object)"
    using T [where regCache = "[''cd'' \<mapsto> ''cd'']" and h = "String ''cdcd''" and p = "String ''cd''", THEN conjunct1, THEN mp, OF e2]
    by (simp add: sample_def ascii_space_def)
  have w1'': "fnMatch sample Map.empty [String [CHR ''a'', CHR ''b'', CHR 0x0A, CHR '' '', CHR ''c'', CHR ''d'', CHR '' ''], String ''cd'']
     = (Boolean True :: int Object, [''cd'' \<mapsto> ''cd''])"
    by (rule prod_eqI) (simp_all only: w1 w1' fst_conv snd_conv)
  from w1'' sp w2 w3 w4 show ?thesis by blast
qed

section \<open>Argument counts of the built-in functions\<close>

text \<open>
  Claim C10. Called with a number of arguments other than one, each of \<^verbatim>\<open>float\<close>, \<^verbatim>\<open>int\<close>,
  \<^verbatim>\<open>len\<close>, \<^verbatim>\<open>lower\<close>, \<^verbatim>\<open>upper\<close>, \<^verbatim>\<open>string\<close> and \<^verbatim>\<open>type\<close> returns Null; called with a number of
  arguments other than two, \<^verbatim>\<open>match\<close> returns the Boolean false and leaves its cache alone.
  \<^verbatim>\<open>trim\<close> and \<^verbatim>\<open>print\<close> take any number of arguments: \<^verbatim>\<open>trim\<close> returns the String of the
  trimmed concatenation of the \<^verbatim>\<open>Inspect\<close> forms, which for no arguments is the empty
  String (\<^verbatim>\<open>strings.TrimSpace\<close> of the empty string being empty), and \<^verbatim>\<open>print\<close> writes the
  \<^verbatim>\<open>Inspect\<close> forms in order and returns the Integer 0. Every one of these functions returns
  an object on every list of arguments; none has an error result.
\<close>

theorem builtins_wrong_argument_count:
  "(length args \<noteq> 1 \<longrightarrow>
      fnFloat D args = Null \<and> fnInt D args = Null \<and> fnLen D args = Null
      \<and> fnLower D args = Null \<and> fnUpper D args = Null \<and> fnString D args = Null
      \<and> fnType D args = Null)
   \<and> (length args \<noteq> 2 \<longrightarrow> fnMatch D regCache args = (Boolean False, regCache))
   \<and> fnTrim D args = String (TrimSpace D (concat (map (Inspect D) args)))
   \<and> fnTrim D [] = String (TrimSpace D [])
   \<and> (TrimSpace D [] = [] \<longrightarrow> fnTrim D [] = String [])
   \<and> fnPrint D args = (concat (map (Inspect D) args), Integer 0)
   \<and> fnPrint D [] = ([], Integer 0)"
proof -
  have f: "foldl (\<lambda>str e. str @ Inspect D e) acc xs = acc @ concat (map (Inspect D) xs)"
    for acc xs
    by (induction xs arbitrary: acc) simp_all
  show ?thesis
    by (simp add: fnFloat_def fnInt_def fnLen_def fnLower_def fnUpper_def fnString_def
          fnType_def fnMatch_def fnTrim_def fnPrint_def f)
qed


theorem builtins_wrong_argument_count_witness:
  "fnFloat sample [] = Null \<and> fnInt sample [Integer 1, Integer 2] = Null
   \<and> fnLen sample [] = Null \<and> fnLower sample [] = Null \<and> fnUpper sample [] = Null
   \<and> fnString sample [String ''a'', String ''b''] = Null \<and> fnType sample [] = Null
   \<and> fnMatch sample Map.empty [String ''a''] = (Boolean False, Map.empty)
   \<and> fnMatch sample Map.empty [String ''a'', String ''a'', String ''a''] = (Boolean False, Map.empty)
   \<and> TrimSpace sample [] = []
   \<and> fnTrim sample [] = String []
   \<and> fnTrim sample [String '' a'', Integer 12, String '' ''] = String ''a12''
   \<and> fnPrint sample [] = ([], Integer 0)"
proof -
  note T = builtins_wrong_argument_count [where D = sample and regCache = Map.empty]
  have t: "TrimSpace sample [] = []" by (simp add: sample_def)
  have i: "Inspect sample (Integer 12) = ''12''"
    by (simp add: decimal_def digits.simps digit_char_def)
  have tr: "TrimSpace sample '' a12 '' = ''a12''"
    by (simp add: sample_def ascii_space_def)
  have w0: "fnFloat sample [] = Null" "fnLen sample [] = Null" "fnLower sample [] = Null"
    "fnUpper sample [] = Null" "fnType sample [] = Null" "fnPrint sample [] = ([], Integer 0)"
    using T [where args = "[]"] by simp_all
  have w1: "fnInt sample [Integer 1, Integer 2] = Null"
    using T [where args = "[Integer 1, Integer 2]"] by simp
  have w2: "fnString sample [String ''a'', String ''b''] = Null"
    using T [where args = "[String ''a'', String ''b'']"] by simp
  have w3: "fnMatch sample Map.empty [String ''a''] = (Boolean False, Map.empty)"
    using T [where args = "[String ''a'']"] by simp
  have w4: "fnMatch sample Map.empty [String ''a'', String ''a'', String ''a''] = (Boolean False, Map.empty)"
    using T [where args = "[String ''a'', String ''a'', String ''a'']"] by simp
  have w5: "fnTrim sample [] = String []"
    using T [where args = "[]"] t by simp
  have w6: "fnTrim sample [String '' a'', Integer 12, String '' ''] = String ''a12''"
    using T [where args = "[String '' a'', Integer 12, String '' '']"] i tr by simp
  from t w0 w1 w2 w3 w4 w5 w6 show ?thesis by simp
qed

end
